theory Spec2Isabelle
  imports Complex_Main
begin

section \<open>Exceptions, effects and results\<close>

text \<open>
  The module \<^verbatim>\<open>rbf/linalg.py\<close> is straight-line Python around external numerical
  routines (LAPACK through scipy, SuperLU, CHOLMOD, GMRES).  Every \<^verbatim>\<open>raise\<close> of the
  module is a constructor of \<open>error\<close>; an exception thrown inside an external routine is
  wrapped in \<open>BackendError\<close>, so that it can never be confused with an exception the module
  itself raises.
\<close>

datatype backend_exc =
    CholmodNotPositiveDefiniteError
  | OtherBackendError string

datatype error =
    ValueError string
  | LinAlgError string
  | IndexError string
  | NameError string
  | ZeroDivisionError
  | BackendError backend_exc

text \<open>External routines the module calls; a call is recorded in the trace of effects.\<close>

datatype routine =
    Dgetrf | Dgetrs | Dpotrf | Dpotrs | Dtrtrs
  | Splu | SuperLU_solve
  | Cholmod_cholesky | Cholmod_solve_A | Cholmod_solve_L | Cholmod_L
  | Spilu | Gmres

datatype event =
    Backend routine
  | Warning string
  | Debug string
  | DebugInfo string int

text \<open>A computation returns an exception or a value, together with the effects it performed.\<close>

type_synonym 'a M = "(error + 'a) \<times> event list"

definition retM :: "'a \<Rightarrow> 'a M" where
  "retM x = (Inr x, [])"

definition raiseM :: "error \<Rightarrow> 'a M" where
  "raiseM e = (Inl e, [])"

definition bindM :: "'a M \<Rightarrow> ('a \<Rightarrow> 'b M) \<Rightarrow> 'b M" where
  "bindM m f =
     (case m of
        (Inl e, l) \<Rightarrow> (Inl e, l)
      | (Inr x, l) \<Rightarrow> (case f x of (r, l') \<Rightarrow> (r, l @ l')))"

definition emit :: "event \<Rightarrow> unit M" where
  "emit ev = (Inr (), [ev])"

text \<open>Calling an external routine: the call is traced, its exception is wrapped.\<close>

definition extcall :: "routine \<Rightarrow> backend_exc + 'a \<Rightarrow> 'a M" where
  "extcall r res =
     (case res of
        Inl x \<Rightarrow> (Inl (BackendError x), [Backend r])
      | Inr v \<Rightarrow> (Inr v, [Backend r]))"

text \<open>The computation \<open>m\<close> does not end with the exception \<open>e\<close>.\<close>

definition avoids :: "'a M \<Rightarrow> error \<Rightarrow> bool" where
  "avoids m e = (fst m \<noteq> Inl e)"

section \<open>Arrays\<close>

text \<open>
  A numpy array is a shape and a buffer in row-major order; entries are exact reals.
  A scipy sparse matrix is modelled by the dense array it denotes (\<^verbatim>\<open>A.toarray()\<close>);
  the tag \<open>Sparse\<close> is what \<^verbatim>\<open>sp.issparse\<close> tests.
\<close>

record ndarray =
  shape :: "nat list"
  data :: "real list"

datatype matrix = Dense ndarray | Sparse ndarray

definition wf_array :: "ndarray \<Rightarrow> bool" where
  "wf_array a = (length (data a) = prod_list (shape a))"

definition ndim :: "ndarray \<Rightarrow> nat" where
  "ndim a = length (shape a)"

definition issparse :: "matrix \<Rightarrow> bool" where
  "issparse A = (case A of Sparse _ \<Rightarrow> True | Dense _ \<Rightarrow> False)"

definition toarray :: "matrix \<Rightarrow> ndarray" where
  "toarray A = (case A of Sparse a \<Rightarrow> a | Dense a \<Rightarrow> a)"

definition tabulate2 :: "nat \<Rightarrow> nat \<Rightarrow> (nat \<Rightarrow> nat \<Rightarrow> real) \<Rightarrow> real list" where
  "tabulate2 n t f = concat (map (\<lambda>i. map (f i) [0..<t]) [0..<n])"

definition np_zeros :: "nat list \<Rightarrow> ndarray" where
  "np_zeros sh = \<lparr>shape = sh, data = replicate (prod_list sh) 0\<rparr>"

definition np_eye :: "nat \<Rightarrow> ndarray" where
  "np_eye n = \<lparr>shape = [n, n], data = tabulate2 n n (\<lambda>i j. if i = j then 1 else 0)\<rparr>"

text \<open>\<^verbatim>\<open>A.shape[0]\<close>: an \<^verbatim>\<open>IndexError\<close> on a 0-dimensional array.\<close>

definition shape0 :: "ndarray \<Rightarrow> nat M" where
  "shape0 a = (case shape a of [] \<Rightarrow> raiseM (IndexError ''tuple index out of range'')
               | d # _ \<Rightarrow> retM d)"

text \<open>\<^verbatim>\<open>n, p = B.shape\<close>: a \<^verbatim>\<open>ValueError\<close> unless the array is 2-dimensional.\<close>

definition unpack2 :: "nat list \<Rightarrow> (nat \<times> nat) M" where
  "unpack2 sh = (case sh of [n, p] \<Rightarrow> retM (n, p)
                 | _ \<Rightarrow> raiseM (ValueError ''wrong number of values to unpack''))"

text \<open>Multi-indices of a row-major buffer.\<close>

fun unravel :: "nat list \<Rightarrow> nat \<Rightarrow> nat list" where
  "unravel [] k = []"
| "unravel (d # ds) k = (k div prod_list ds) mod d # unravel ds (k mod prod_list ds)"

fun ravel :: "nat list \<Rightarrow> nat list \<Rightarrow> nat" where
  "ravel (d # ds) (i # is) = i * prod_list ds + ravel ds is"
| "ravel _ _ = 0"

text \<open>\<^verbatim>\<open>a.T\<close> reverses the axes.\<close>

definition np_T :: "ndarray \<Rightarrow> ndarray" where
  "np_T a =
     \<lparr>shape = rev (shape a),
      data = map (\<lambda>k. data a ! ravel (shape a) (rev (unravel (rev (shape a)) k)))
                 [0..<prod_list (shape a)]\<rparr>"

text \<open>
  \<^verbatim>\<open>a.dot(b)\<close> (\<^verbatim>\<open>np.dot\<close>): a scalar operand scales the other one; otherwise the last
  axis of \<open>a\<close> is contracted with the only axis of a 1-dimensional \<open>b\<close>, or with the
  second-to-last axis of \<open>b\<close>.  Shapes that are not aligned raise \<^verbatim>\<open>ValueError\<close>.
\<close>

definition dot_data :: "nat \<Rightarrow> nat \<Rightarrow> nat \<Rightarrow> nat \<Rightarrow> real list \<Rightarrow> real list \<Rightarrow> real list" where
  "dot_data r m q t xs ys =
     concat (map (\<lambda>i. concat (map (\<lambda>u. map (\<lambda>j.
        (\<Sum>l\<leftarrow>[0..<m]. xs ! (i * m + l) * ys ! ((u * m + l) * t + j))) [0..<t]) [0..<q])) [0..<r])"

definition np_dot :: "ndarray \<Rightarrow> ndarray \<Rightarrow> ndarray M" where
  "np_dot a b =
     (if shape a = [] then retM \<lparr>shape = shape b, data = map (\<lambda>v. hd (data a) * v) (data b)\<rparr>
      else if shape b = [] then retM \<lparr>shape = shape a, data = map (\<lambda>v. v * hd (data b)) (data a)\<rparr>
      else
        let m = last (shape a);
            r = prod_list (butlast (shape a))
        in if length (shape b) = 1 then
             (if hd (shape b) \<noteq> m then raiseM (ValueError ''shapes not aligned'')
              else retM \<lparr>shape = butlast (shape a),
                         data = dot_data r m 1 1 (data a) (data b)\<rparr>)
           else
             let t = last (shape b);
                 lead = butlast (butlast (shape b))
             in if last (butlast (shape b)) \<noteq> m then raiseM (ValueError ''shapes not aligned'')
                else retM \<lparr>shape = butlast (shape a) @ lead @ [t],
                           data = dot_data r m (prod_list lead) t (data a) (data b)\<rparr>)"

text \<open>
  Elementwise arithmetic.  Operands of equal shape are combined entry by entry; otherwise
  numpy broadcasts them (shapes aligned at the last axis, an axis of length 1 repeated), and
  raises \<^verbatim>\<open>ValueError\<close> when the shapes are incompatible.  Division is HOL's total
  division on the reals.
\<close>

fun bcast_rev :: "nat list \<Rightarrow> nat list \<Rightarrow> nat list option" where
  "bcast_rev [] ys = Some ys"
| "bcast_rev xs [] = Some xs"
| "bcast_rev (x # xs) (y # ys) =
     (if x = y \<or> y = 1 then map_option (Cons x) (bcast_rev xs ys)
      else if x = 1 then map_option (Cons y) (bcast_rev xs ys)
      else None)"

definition broadcast_shapes :: "nat list \<Rightarrow> nat list \<Rightarrow> nat list option" where
  "broadcast_shapes s1 s2 = map_option rev (bcast_rev (rev s1) (rev s2))"

definition bget :: "ndarray \<Rightarrow> nat list \<Rightarrow> nat \<Rightarrow> real" where
  "bget a sh k =
     data a ! ravel (shape a)
       (map2 (\<lambda>d i. if d = 1 then 0 else i) (shape a)
          (drop (length sh - length (shape a)) (unravel sh k)))"

definition elementwise :: "(real \<Rightarrow> real \<Rightarrow> real) \<Rightarrow> ndarray \<Rightarrow> ndarray \<Rightarrow> ndarray M" where
  "elementwise f a b =
     (if shape a = shape b then retM \<lparr>shape = shape a, data = map2 f (data a) (data b)\<rparr>
      else case broadcast_shapes (shape a) (shape b) of
             None \<Rightarrow> raiseM (ValueError ''operands could not be broadcast together'')
           | Some sh \<Rightarrow>
               retM \<lparr>shape = sh,
                     data = map (\<lambda>k. f (bget a sh k) (bget b sh k)) [0..<prod_list sh]\<rparr>)"

definition np_add :: "ndarray \<Rightarrow> ndarray \<Rightarrow> ndarray M" where
  "np_add = elementwise (\<lambda>x y. x + y)"

definition np_sub :: "ndarray \<Rightarrow> ndarray \<Rightarrow> ndarray M" where
  "np_sub = elementwise (\<lambda>x y. x - y)"

definition np_mul :: "ndarray \<Rightarrow> ndarray \<Rightarrow> ndarray M" where
  "np_mul = elementwise (\<lambda>x y. x * y)"

definition np_div :: "ndarray \<Rightarrow> ndarray \<Rightarrow> ndarray M" where
  "np_div = elementwise (\<lambda>x y. x / y)"

definition np_neg :: "ndarray \<Rightarrow> ndarray" where
  "np_neg a = \<lparr>shape = shape a, data = map uminus (data a)\<rparr>"

text \<open>\<^verbatim>\<open>a += b\<close>: the result must have the shape of \<open>a\<close>.\<close>

definition np_iadd :: "ndarray \<Rightarrow> ndarray \<Rightarrow> ndarray M" where
  "np_iadd a b =
     (if shape a \<noteq> shape b \<and> broadcast_shapes (shape a) (shape b) \<noteq> None
         \<and> broadcast_shapes (shape a) (shape b) \<noteq> Some (shape a)
      then raiseM (ValueError ''non-broadcastable output operand'')
      else np_add a b)"

text \<open>Concatenation of two arrays along an axis, and \<^verbatim>\<open>np.concatenate((a, b), axis=0)\<close>.\<close>

definition concat_axis :: "nat \<Rightarrow> ndarray \<Rightarrow> ndarray \<Rightarrow> ndarray M" where
  "concat_axis k a b =
     (if length (shape a) \<noteq> length (shape b) then
        raiseM (ValueError ''all the input arrays must have same number of dimensions'')
      else if length (shape a) \<le> k then
        raiseM (ValueError ''zero-dimensional arrays cannot be concatenated'')
      else if take k (shape a) \<noteq> take k (shape b)
              \<or> drop (Suc k) (shape a) \<noteq> drop (Suc k) (shape b) then
        raiseM (ValueError ''all the input array dimensions except for the concatenation axis must match exactly'')
      else
        let outer = prod_list (take k (shape a));
            ia = prod_list (drop k (shape a));
            ib = prod_list (drop k (shape b))
        in retM \<lparr>shape = take k (shape a) @ [shape a ! k + shape b ! k] @ drop (Suc k) (shape a),
                 data = concat (map (\<lambda>i. take ia (drop (i * ia) (data a))
                                          @ take ib (drop (i * ib) (data b))) [0..<outer])\<rparr>)"

definition np_concatenate0 :: "ndarray \<Rightarrow> ndarray \<Rightarrow> ndarray M" where
  "np_concatenate0 a b =
     (if shape a = [] \<or> shape b = [] then
        raiseM (ValueError ''zero-dimensional arrays cannot be concatenated'')
      else if length (shape a) \<noteq> length (shape b) then
        raiseM (ValueError ''all the input arrays must have same number of dimensions'')
      else if tl (shape a) \<noteq> tl (shape b) then
        raiseM (ValueError ''all the input array dimensions except for the concatenation axis must match exactly'')
      else retM \<lparr>shape = (hd (shape a) + hd (shape b)) # tl (shape a),
                 data = data a @ data b\<rparr>)"

text \<open>
  \<^verbatim>\<open>np.block([[a, b], [c, d]])\<close>: the blocks are promoted to a common number of dimensions
  (at least 2) by prepending axes of length 1, each row of blocks is joined along the last
  axis and the two rows along the second-to-last one.
\<close>

definition promote :: "nat \<Rightarrow> ndarray \<Rightarrow> ndarray" where
  "promote nd a = \<lparr>shape = replicate (nd - length (shape a)) 1 @ shape a, data = data a\<rparr>"

definition np_block2 :: "ndarray \<Rightarrow> ndarray \<Rightarrow> ndarray \<Rightarrow> ndarray \<Rightarrow> ndarray M" where
  "np_block2 a b c d =
     (let nd = max 2 (max (max (ndim a) (ndim b)) (max (ndim c) (ndim d)))
      in bindM (concat_axis (nd - 1) (promote nd a) (promote nd b)) (\<lambda>top.
         bindM (concat_axis (nd - 1) (promote nd c) (promote nd d)) (\<lambda>bot.
         concat_axis (nd - 2) top bot)))"

text \<open>Basic slices \<^verbatim>\<open>a[:n]\<close>, \<^verbatim>\<open>a[n:]\<close>, \<^verbatim>\<open>a[:, :n]\<close>, \<^verbatim>\<open>a[:, n:]\<close>.\<close>

definition rows_upto :: "nat \<Rightarrow> ndarray \<Rightarrow> ndarray M" where
  "rows_upto n a =
     (case shape a of
        [] \<Rightarrow> raiseM (IndexError ''too many indices for array'')
      | s0 # rest \<Rightarrow>
          retM \<lparr>shape = min n s0 # rest, data = take (min n s0 * prod_list rest) (data a)\<rparr>)"

definition rows_from :: "nat \<Rightarrow> ndarray \<Rightarrow> ndarray M" where
  "rows_from n a =
     (case shape a of
        [] \<Rightarrow> raiseM (IndexError ''too many indices for array'')
      | s0 # rest \<Rightarrow>
          retM \<lparr>shape = (s0 - n) # rest, data = drop (min n s0 * prod_list rest) (data a)\<rparr>)"

definition cols_upto :: "nat \<Rightarrow> ndarray \<Rightarrow> ndarray M" where
  "cols_upto n a =
     (case shape a of
        s0 # s1 # rest \<Rightarrow>
          retM \<lparr>shape = s0 # min n s1 # rest,
                data = concat (map (\<lambda>i. take (min n s1 * prod_list rest)
                                          (drop (i * s1 * prod_list rest) (data a))) [0..<s0])\<rparr>
      | _ \<Rightarrow> raiseM (IndexError ''too many indices for array''))"

definition cols_from :: "nat \<Rightarrow> ndarray \<Rightarrow> ndarray M" where
  "cols_from n a =
     (case shape a of
        s0 # s1 # rest \<Rightarrow>
          retM \<lparr>shape = s0 # (s1 - n) # rest,
                data = concat (map (\<lambda>i. take ((s1 - n) * prod_list rest)
                                          (drop ((i * s1 + min n s1) * prod_list rest) (data a)))
                                   [0..<s0])\<rparr>
      | _ \<Rightarrow> raiseM (IndexError ''too many indices for array''))"

text \<open>\<^verbatim>\<open>b[p]\<close> with an index array \<open>p\<close> (rows of \<open>b\<close> in the order \<open>p\<close>), \<^verbatim>\<open>s[:, None]\<close>
  and \<^verbatim>\<open>np.argsort\<close>.\<close>

definition take_rows :: "ndarray \<Rightarrow> nat list \<Rightarrow> ndarray M" where
  "take_rows b p =
     (case shape b of
        [] \<Rightarrow> raiseM (IndexError ''too many indices for array'')
      | s0 # rest \<Rightarrow>
          if list_ex (\<lambda>i. s0 \<le> i) p then raiseM (IndexError ''index out of bounds'')
          else retM \<lparr>shape = length p # rest,
                     data = concat (map (\<lambda>i. take (prod_list rest)
                                               (drop (i * prod_list rest) (data b))) p)\<rparr>)"

definition newaxis1 :: "ndarray \<Rightarrow> ndarray M" where
  "newaxis1 s =
     (case shape s of
        [] \<Rightarrow> raiseM (IndexError ''too many indices for array'')
      | s0 # rest \<Rightarrow> retM \<lparr>shape = s0 # 1 # rest, data = data s\<rparr>)"

definition np_argsort :: "nat list \<Rightarrow> nat list" where
  "np_argsort p = map snd (sort_key fst (zip p [0..<length p]))"

section \<open>External routines\<close>

text \<open>
  The numerical routines are not part of the module: LAPACK's \<^verbatim>\<open>dgetrf\<close>, \<^verbatim>\<open>dgetrs\<close>,
  \<^verbatim>\<open>dpotrf\<close>, \<^verbatim>\<open>dpotrs\<close>, \<^verbatim>\<open>dtrtrs\<close> (each returns its result and LAPACK's \<open>info\<close>),
  SuperLU's \<^verbatim>\<open>splu\<close>, CHOLMOD's \<^verbatim>\<open>cholesky\<close>, \<^verbatim>\<open>spilu\<close> and \<^verbatim>\<open>gmres\<close>.  They are
  parameters of the model, and each may throw.  An object returned by a routine is the record
  of its methods.  \<open>HAS_CHOLMOD\<close> is the module's flag: whether \<^verbatim>\<open>sksparse.cholmod\<close>
  could be imported.
\<close>

record superlu =
  slu_solve :: "ndarray \<Rightarrow> backend_exc + ndarray"

record cholfactor =
  ch_D :: ndarray
  ch_P :: "nat list"
  ch_solve_A :: "ndarray \<Rightarrow> backend_exc + ndarray"
  ch_solve_L :: "ndarray \<Rightarrow> backend_exc + ndarray"
  ch_L :: "backend_exc + ndarray"

record backend =
  dgetrf :: "ndarray \<Rightarrow> backend_exc + (ndarray \<times> int list \<times> int)"
  dgetrs :: "ndarray \<Rightarrow> int list \<Rightarrow> ndarray \<Rightarrow> backend_exc + (ndarray \<times> int)"
  dpotrf :: "ndarray \<Rightarrow> bool \<Rightarrow> backend_exc + (ndarray \<times> int)"
  dpotrs :: "ndarray \<Rightarrow> ndarray \<Rightarrow> bool \<Rightarrow> backend_exc + (ndarray \<times> int)"
  dtrtrs :: "ndarray \<Rightarrow> ndarray \<Rightarrow> bool \<Rightarrow> backend_exc + (ndarray \<times> int)"
  splu :: "ndarray \<Rightarrow> backend_exc + superlu"
  HAS_CHOLMOD :: bool
  cholmod_cholesky :: "ndarray \<Rightarrow> backend_exc + cholfactor"
  spilu :: "ndarray \<Rightarrow> real \<Rightarrow> real \<Rightarrow> backend_exc + superlu"
  gmres :: "ndarray \<Rightarrow> ndarray \<Rightarrow> real \<Rightarrow> superlu \<Rightarrow> backend_exc + (ndarray \<times> int)"

definition CHOLMOD_MSG :: string where
  "CHOLMOD_MSG = ''Could not import CHOLMOD. Sparse matrices will be converted to dense for all Cholesky decompositions''"

text \<open>Decimal text of an integer, for the \<^verbatim>\<open>%s\<close> of the error messages.\<close>

function show_nat :: "nat \<Rightarrow> string" where
  "show_nat n =
     (if n < 10 then [char_of (48 + n)]
      else show_nat (n div 10) @ [char_of (48 + n mod 10)])"
  by pat_completeness auto
termination
  by (relation "measure id") auto

definition show_int :: "int \<Rightarrow> string" where
  "show_int k = (if k < 0 then CHR ''-'' # show_nat (nat (- k)) else show_nat (nat k))"

section \<open>Wrappers for the LAPACK routines\<close>

definition lu :: "backend \<Rightarrow> ndarray \<Rightarrow> (ndarray \<times> int list) M" where
  "lu be A =
     (if shape A = [0, 0] then retM (np_zeros [0, 0], [])
      else bindM (extcall Dgetrf (dgetrf be A)) (\<lambda>(fac, piv, info).
        if info < 0 then
          raiseM (ValueError (''the '' @ show_int (- info) @ ''-th argument had an illegal value''))
        else if info > 0 then raiseM (LinAlgError ''Singular matrix'')
        else retM (fac, piv)))"

definition cholesky :: "backend \<Rightarrow> ndarray \<Rightarrow> bool \<Rightarrow> ndarray M" where
  "cholesky be A lower =
     (if shape A = [0, 0] then retM (np_zeros [0, 0])
      else bindM (extcall Dpotrf (dpotrf be A lower)) (\<lambda>(L, info).
        if info < 0 then
          raiseM (ValueError (''The '' @ show_int (- info) @ ''-th argument has an illegal value.''))
        else if info > 0 then raiseM (LinAlgError ''Matrix not positive definite'')
        else retM L))"

definition solve_lu :: "backend \<Rightarrow> ndarray \<Rightarrow> int list \<Rightarrow> ndarray \<Rightarrow> ndarray M" where
  "solve_lu be fac piv b =
     (if list_ex (\<lambda>i. i = 0) (shape b) then retM (np_zeros (shape b))
      else bindM (extcall Dgetrs (dgetrs be fac piv b)) (\<lambda>(x, info).
        if info < 0 then
          raiseM (ValueError (''the '' @ show_int (- info) @ ''-th argument had an illegal value''))
        else retM x))"

definition solve_cholesky :: "backend \<Rightarrow> ndarray \<Rightarrow> ndarray \<Rightarrow> bool \<Rightarrow> ndarray M" where
  "solve_cholesky be L b lower =
     (if list_ex (\<lambda>i. i = 0) (shape b) then retM (np_zeros (shape b))
      else bindM (extcall Dpotrs (dpotrs be L b lower)) (\<lambda>(x, info).
        if info < 0 then
          raiseM (ValueError (''The '' @ show_int (- info) @ ''-th argument has an illegal value.''))
        else retM x))"

definition solve_triangular :: "backend \<Rightarrow> ndarray \<Rightarrow> ndarray \<Rightarrow> bool \<Rightarrow> ndarray M" where
  "solve_triangular be L b lower =
     (if list_ex (\<lambda>i. i = 0) (shape b) then retM (np_zeros (shape b))
      else bindM (extcall Dtrtrs (dtrtrs be L b lower)) (\<lambda>(x, info).
        if info < 0 then
          raiseM (ValueError (''The '' @ show_int (- info) @ ''-th argument had an illegal value''))
        else if info > 0 then raiseM (LinAlgError ''Singular matrix'')
        else retM x))"

section \<open>Normalising the inputs\<close>

text \<open>
  \<^verbatim>\<open>as_sparse_or_array\<close> keeps a sparse matrix sparse (as csc) and anything else an array;
  \<^verbatim>\<open>as_array\<close> always returns an array.  The conversion to \<^verbatim>\<open>dtype=float\<close> is the identity
  on exact reals.
\<close>

definition as_sparse_or_array :: "matrix \<Rightarrow> matrix" where
  "as_sparse_or_array A = (if issparse A then Sparse (toarray A) else Dense (toarray A))"

definition as_array :: "matrix \<Rightarrow> ndarray" where
  "as_array A = (if issparse A then toarray A else toarray A)"

section \<open>Solver\<close>

text \<open>
  \<^verbatim>\<open>_SparseSolver.__init__\<close> formats its debug message before it factors: the percentage
  of nonzeros divides by \<^verbatim>\<open>A.shape[0]*A.shape[1]\<close>, which raises \<^verbatim>\<open>ZeroDivisionError\<close>
  for a matrix without entries.
\<close>

datatype lu_solver = SparseSolver superlu | DenseSolver ndarray "int list"

definition nonzeros_percentage :: "ndarray \<Rightarrow> unit M" where
  "nonzeros_percentage A =
     bindM (unpack2 (shape A)) (\<lambda>(r, c).
       if r * c = 0 then raiseM ZeroDivisionError else retM ())"

definition SparseSolver_init :: "backend \<Rightarrow> ndarray \<Rightarrow> lu_solver M" where
  "SparseSolver_init be A =
     bindM (nonzeros_percentage A) (\<lambda>_.
     bindM (emit (Debug ''Computing the LU decomposition'')) (\<lambda>_.
     bindM (extcall Splu (splu be A)) (\<lambda>factor.
     retM (SparseSolver factor))))"

definition DenseSolver_init :: "backend \<Rightarrow> ndarray \<Rightarrow> lu_solver M" where
  "DenseSolver_init be A = bindM (lu be A) (\<lambda>(fac, piv). retM (DenseSolver fac piv))"

text \<open>\<^verbatim>\<open>self._solver.solve(b)\<close> for the two kinds of solver.\<close>

definition lu_solver_solve :: "backend \<Rightarrow> lu_solver \<Rightarrow> ndarray \<Rightarrow> ndarray M" where
  "lu_solver_solve be s b =
     (case s of
        SparseSolver factor \<Rightarrow> extcall SuperLU_solve (slu_solve factor b)
      | DenseSolver fac piv \<Rightarrow> solve_lu be fac piv b)"

record Solver =
  S_solver :: lu_solver
  S_inverse :: "ndarray option"
  S_n :: nat

definition Solver_init :: "backend \<Rightarrow> matrix \<Rightarrow> bool \<Rightarrow> Solver M" where
  "Solver_init be A0 build_inverse =
     (let A = as_sparse_or_array A0 in
      bindM (if issparse A then SparseSolver_init be (toarray A)
             else DenseSolver_init be (toarray A)) (\<lambda>solver.
      bindM (if build_inverse then
               bindM (shape0 (toarray A)) (\<lambda>n.
               bindM (lu_solver_solve be solver (np_eye n)) (\<lambda>iv. retM (Some iv)))
             else retM None) (\<lambda>inverse.
      bindM (shape0 (toarray A)) (\<lambda>n.
      retM \<lparr>S_solver = solver, S_inverse = inverse, S_n = n\<rparr>))))"

definition Solver_solve :: "backend \<Rightarrow> Solver \<Rightarrow> matrix \<Rightarrow> ndarray M" where
  "Solver_solve be self b0 =
     (let b = as_array b0 in
      case S_inverse self of
        Some iv \<Rightarrow> np_dot iv b
      | None \<Rightarrow> lu_solver_solve be (S_solver self) b)"

section \<open>PosDefSolver\<close>

text \<open>
  \<^verbatim>\<open>_SparsePosDefSolver\<close> keeps the CHOLMOD factor, its diagonal \<open>d\<close> and its fill-reducing
  permutation \<open>p\<close>; \<^verbatim>\<open>_DensePosDefSolver\<close> keeps the lower Cholesky factor.  The name
  \<^verbatim>\<open>cholmod\<close> is bound only when the import succeeded.
\<close>

datatype pd_solver =
    SparsePosDefSolver cholfactor ndarray "nat list"
  | DensePosDefSolver ndarray

definition SparsePosDefSolver_init :: "backend \<Rightarrow> ndarray \<Rightarrow> pd_solver M" where
  "SparsePosDefSolver_init be A =
     bindM (nonzeros_percentage A) (\<lambda>_.
     bindM (emit (Debug ''Computing the Cholesky decomposition'')) (\<lambda>_.
     if \<not> HAS_CHOLMOD be then raiseM (NameError ''cholmod'')
     else
       bindM (extcall Cholmod_cholesky (cholmod_cholesky be A)) (\<lambda>factor.
       retM (SparsePosDefSolver factor (ch_D factor) (ch_P factor)))))"

definition DensePosDefSolver_init :: "backend \<Rightarrow> ndarray \<Rightarrow> pd_solver M" where
  "DensePosDefSolver_init be A = bindM (cholesky be A True) (\<lambda>L. retM (DensePosDefSolver L))"

definition pd_solver_solve :: "backend \<Rightarrow> pd_solver \<Rightarrow> ndarray \<Rightarrow> ndarray M" where
  "pd_solver_solve be s b =
     (case s of
        SparsePosDefSolver factor d p \<Rightarrow> extcall Cholmod_solve_A (ch_solve_A factor b)
      | DensePosDefSolver chol \<Rightarrow> solve_cholesky be chol b True)"

definition msg_b_ndim :: string where
  "msg_b_ndim = ''`b` must be a 1 or 2 dimensional array''"

definition SparsePosDefSolver_solve_L ::
  "cholfactor \<Rightarrow> ndarray \<Rightarrow> nat list \<Rightarrow> ndarray \<Rightarrow> ndarray M" where
  "SparsePosDefSolver_solve_L factor d p b =
     (let s_inv = \<lparr>shape = shape d, data = map (\<lambda>v. 1 / sqrt v) (data d)\<rparr> in
      bindM (if ndim b = 2 then newaxis1 s_inv
             else if ndim b \<noteq> 1 then raiseM (ValueError msg_b_ndim)
             else retM s_inv) (\<lambda>s_inv.
      bindM (take_rows b p) (\<lambda>bp.
      bindM (extcall Cholmod_solve_L (ch_solve_L factor bp)) (\<lambda>y.
      np_mul s_inv y))))"

definition pd_solver_solve_L :: "backend \<Rightarrow> pd_solver \<Rightarrow> ndarray \<Rightarrow> ndarray M" where
  "pd_solver_solve_L be s b =
     (case s of
        SparsePosDefSolver factor d p \<Rightarrow> SparsePosDefSolver_solve_L factor d p b
      | DensePosDefSolver chol \<Rightarrow> solve_triangular be chol b True)"

definition pd_solver_L :: "pd_solver \<Rightarrow> matrix M" where
  "pd_solver_L s =
     (case s of
        SparsePosDefSolver factor d p \<Rightarrow>
          bindM (extcall Cholmod_L (ch_L factor)) (\<lambda>L.
          bindM (take_rows L (np_argsort p)) (\<lambda>out. retM (Sparse out)))
      | DensePosDefSolver chol \<Rightarrow> retM (Dense chol))"

text \<open>The diagonal of a matrix, for \<^verbatim>\<open>np.diag(self.chol)\<close>.\<close>

definition np_diag :: "ndarray \<Rightarrow> real list M" where
  "np_diag a =
     (case shape a of
        [r, c] \<Rightarrow> retM (map (\<lambda>i. data a ! (i * c + i)) [0..<min r c])
      | _ \<Rightarrow> raiseM (ValueError ''Input must be 1- or 2-d.''))"

definition pd_solver_log_det :: "pd_solver \<Rightarrow> real M" where
  "pd_solver_log_det s =
     (case s of
        SparsePosDefSolver factor d p \<Rightarrow> retM (\<Sum>v\<leftarrow>data d. ln v)
      | DensePosDefSolver chol \<Rightarrow>
          bindM (np_diag chol) (\<lambda>dg. retM (2 * (\<Sum>v\<leftarrow>dg. ln v))))"

record PosDefSolver =
  PD_solver :: pd_solver
  PD_inverse :: "ndarray option"
  PD_n :: nat

definition PosDefSolver_init :: "backend \<Rightarrow> matrix \<Rightarrow> bool \<Rightarrow> PosDefSolver M" where
  "PosDefSolver_init be A0 build_inverse =
     (let A = as_sparse_or_array A0 in
      bindM (if issparse A then
               (if \<not> HAS_CHOLMOD be then
                  bindM (emit (Warning CHOLMOD_MSG)) (\<lambda>_. DensePosDefSolver_init be (toarray A))
                else SparsePosDefSolver_init be (toarray A))
             else DensePosDefSolver_init be (toarray A)) (\<lambda>solver.
      bindM (if build_inverse then
               bindM (shape0 (toarray A)) (\<lambda>n.
               bindM (pd_solver_solve be solver (np_eye n)) (\<lambda>iv. retM (Some iv)))
             else retM None) (\<lambda>inverse.
      bindM (shape0 (toarray A)) (\<lambda>n.
      retM \<lparr>PD_solver = solver, PD_inverse = inverse, PD_n = n\<rparr>))))"

definition PosDefSolver_solve :: "backend \<Rightarrow> PosDefSolver \<Rightarrow> matrix \<Rightarrow> ndarray M" where
  "PosDefSolver_solve be self b0 =
     (let b = as_array b0 in
      case PD_inverse self of
        Some iv \<Rightarrow> np_dot iv b
      | None \<Rightarrow> pd_solver_solve be (PD_solver self) b)"

definition PosDefSolver_solve_L :: "backend \<Rightarrow> PosDefSolver \<Rightarrow> matrix \<Rightarrow> ndarray M" where
  "PosDefSolver_solve_L be self b0 = pd_solver_solve_L be (PD_solver self) (as_array b0)"

definition PosDefSolver_L :: "PosDefSolver \<Rightarrow> matrix M" where
  "PosDefSolver_L self = pd_solver_L (PD_solver self)"

definition PosDefSolver_log_det :: "PosDefSolver \<Rightarrow> real M" where
  "PosDefSolver_log_det self = pd_solver_log_det (PD_solver self)"

text \<open>
  \<^verbatim>\<open>is_positive_definite\<close>: the handler's tuple of exception classes is evaluated when an
  exception reaches it, and it mentions \<^verbatim>\<open>cholmod\<close>, which is unbound when the import
  failed.
\<close>

definition is_positive_definite :: "backend \<Rightarrow> matrix \<Rightarrow> bool M" where
  "is_positive_definite be A =
     (case bindM (PosDefSolver_init be A False) PosDefSolver_L of
        (Inr _, l) \<Rightarrow> (Inr True, l)
      | (Inl e, l) \<Rightarrow>
          if \<not> HAS_CHOLMOD be then (Inl (NameError ''cholmod''), l)
          else (case e of
                  LinAlgError _ \<Rightarrow> (Inr False, l)
                | BackendError CholmodNotPositiveDefiniteError \<Rightarrow> (Inr False, l)
                | _ \<Rightarrow> (Inl e, l)))"

section \<open>PartitionedSolver\<close>

definition msg_fewer_rows :: string where
  "msg_fewer_rows = ''There are fewer rows than columns in `B`. This makes the block matrix singular, and its inverse cannot be computed.''"

text \<open>\<^verbatim>\<open>sp.bmat([[A, B], [B.T, None]])\<close>: the missing block is a zero block whose height is
  that of its row and whose width is that of its column.\<close>

definition sp_bmat :: "ndarray \<Rightarrow> ndarray \<Rightarrow> ndarray \<Rightarrow> ndarray M" where
  "sp_bmat A B Bt = np_block2 A B Bt (np_zeros [hd (shape Bt), last (shape B)])"

record PartitionedSolver =
  PS_solver :: lu_solver
  PS_inverse :: "ndarray option"
  PS_n :: nat
  PS_p :: nat

definition PartitionedSolver_init ::
  "backend \<Rightarrow> matrix \<Rightarrow> matrix \<Rightarrow> bool \<Rightarrow> PartitionedSolver M" where
  "PartitionedSolver_init be A0 B0 build_inverse =
     (let A = as_sparse_or_array A0;
          B = as_array B0
      in bindM (unpack2 (shape B)) (\<lambda>(n, p).
         if n < p then raiseM (LinAlgError msg_fewer_rows)
         else
           bindM (if issparse A then
                    bindM (sp_bmat (toarray A) B (np_T B)) (\<lambda>C. SparseSolver_init be C)
                  else
                    (let Z = np_zeros [p, p] in
                     bindM (np_block2 (toarray A) B (np_T B) Z) (\<lambda>C.
                     DenseSolver_init be C))) (\<lambda>solver.
           bindM (if build_inverse then
                    bindM (lu_solver_solve be solver (np_eye (n + p))) (\<lambda>iv. retM (Some iv))
                  else retM None) (\<lambda>inverse.
           retM \<lparr>PS_solver = solver, PS_inverse = inverse, PS_n = n, PS_p = p\<rparr>))))"

text \<open>The combined solution \<open>xy\<close> of \<^verbatim>\<open>PartitionedSolver.solve\<close>, before it is split.\<close>

definition PartitionedSolver_xy ::
  "backend \<Rightarrow> PartitionedSolver \<Rightarrow> matrix \<Rightarrow> matrix option \<Rightarrow> ndarray M" where
  "PartitionedSolver_xy be self a0 b0 =
     (let a = as_array a0 in
      case PS_inverse self of
        Some iv \<Rightarrow>
          bindM (cols_upto (PS_n self) iv) (\<lambda>left.
          bindM (np_dot left a) (\<lambda>xy.
          case b0 of
            None \<Rightarrow> retM xy
          | Some b1 \<Rightarrow>
              (let b = as_array b1 in
               bindM (cols_from (PS_n self) iv) (\<lambda>right.
               bindM (np_dot right b) (\<lambda>z.
               np_iadd xy z)))))
      | None \<Rightarrow>
          (let b = (case b0 of
                      None \<Rightarrow> np_zeros (PS_p self # tl (shape a))
                    | Some b1 \<Rightarrow> as_array b1)
           in bindM (np_concatenate0 a b) (\<lambda>c.
              lu_solver_solve be (PS_solver self) c)))"

definition PartitionedSolver_solve ::
  "backend \<Rightarrow> PartitionedSolver \<Rightarrow> matrix \<Rightarrow> matrix option \<Rightarrow> (ndarray \<times> ndarray) M" where
  "PartitionedSolver_solve be self a0 b0 =
     bindM (PartitionedSolver_xy be self a0 b0) (\<lambda>xy.
     bindM (rows_upto (PS_n self) xy) (\<lambda>x.
     bindM (rows_from (PS_n self) xy) (\<lambda>y.
     retM (x, y))))"

section \<open>PartitionedPosDefSolver\<close>

record PartitionedPosDefSolver =
  PPD_A_solver :: pd_solver
  PPD_AiB :: ndarray
  PPD_BtAiB_solver :: pd_solver
  PPD_inverse :: "ndarray option"
  PPD_n :: nat
  PPD_p :: nat

definition PartitionedPosDefSolver_init ::
  "backend \<Rightarrow> matrix \<Rightarrow> matrix \<Rightarrow> bool \<Rightarrow> PartitionedPosDefSolver M" where
  "PartitionedPosDefSolver_init be A0 B0 build_inverse =
     (let A = as_sparse_or_array A0;
          B = as_array B0
      in bindM (unpack2 (shape B)) (\<lambda>(n, p).
         if n < p then raiseM (LinAlgError msg_fewer_rows)
         else
           bindM (if issparse A then
                    (if \<not> HAS_CHOLMOD be then
                       bindM (emit (Warning CHOLMOD_MSG)) (\<lambda>_.
                       DensePosDefSolver_init be (toarray A))
                     else SparsePosDefSolver_init be (toarray A))
                  else DensePosDefSolver_init be (toarray A)) (\<lambda>A_solver.
           bindM (pd_solver_solve be A_solver B) (\<lambda>AiB.
           bindM (np_dot (np_T B) AiB) (\<lambda>BtAiB.
           bindM (DensePosDefSolver_init be BtAiB) (\<lambda>BtAiB_solver.
           bindM (if build_inverse then
                    (let Ia = np_eye n; Ib = np_eye p in
                     bindM (pd_solver_solve be BtAiB_solver Ib) (\<lambda>Es.
                     (let E = np_neg Es in
                      bindM (np_dot AiB (np_neg E)) (\<lambda>D.
                      bindM (pd_solver_solve be A_solver Ia) (\<lambda>AiI.
                      bindM (np_dot D (np_T AiB)) (\<lambda>DAiBt.
                      bindM (np_sub AiI DAiBt) (\<lambda>C.
                      bindM (np_block2 C D (np_T D) E) (\<lambda>iv.
                      retM (Some iv)))))))))
                  else retM None) (\<lambda>inverse.
           retM \<lparr>PPD_A_solver = A_solver, PPD_AiB = AiB, PPD_BtAiB_solver = BtAiB_solver,
                 PPD_inverse = inverse, PPD_n = n, PPD_p = p\<rparr>)))))))"

definition PartitionedPosDefSolver_solve ::
  "backend \<Rightarrow> PartitionedPosDefSolver \<Rightarrow> matrix \<Rightarrow> matrix option \<Rightarrow> (ndarray \<times> ndarray) M" where
  "PartitionedPosDefSolver_solve be self a0 b0 =
     (let a = as_array a0 in
      case PPD_inverse self of
        Some iv \<Rightarrow>
          bindM (cols_upto (PPD_n self) iv) (\<lambda>left.
          bindM (np_dot left a) (\<lambda>xy0.
          bindM (case b0 of
                   None \<Rightarrow> retM xy0
                 | Some b1 \<Rightarrow>
                     (let b = as_array b1 in
                      bindM (cols_from (PPD_n self) iv) (\<lambda>right.
                      bindM (np_dot right b) (\<lambda>z.
                      np_iadd xy0 z)))) (\<lambda>xy.
          bindM (rows_upto (PPD_n self) xy) (\<lambda>x.
          bindM (rows_from (PPD_n self) xy) (\<lambda>y.
          retM (x, y))))))
      | None \<Rightarrow>
          bindM (np_dot (np_T (PPD_AiB self)) a) (\<lambda>AiBta.
          bindM (pd_solver_solve be (PPD_BtAiB_solver self) AiBta) (\<lambda>Dta.
          bindM (pd_solver_solve be (PPD_A_solver self) a) (\<lambda>Aia.
          bindM (np_dot (PPD_AiB self) Dta) (\<lambda>AiBDta.
          bindM (np_sub Aia AiBDta) (\<lambda>Ca.
          case b0 of
            None \<Rightarrow> retM (Ca, Dta)
          | Some b1 \<Rightarrow>
              (let b = as_array b1 in
               bindM (pd_solver_solve be (PPD_BtAiB_solver self) b) (\<lambda>Sib.
               (let Eb = np_neg Sib in
                bindM (np_dot (PPD_AiB self) Eb) (\<lambda>AiBEb.
                (let Db = np_neg AiBEb in
                 bindM (np_add Ca Db) (\<lambda>x.
                 bindM (np_add Dta Eb) (\<lambda>y.
                 retM (x, y))))))))))))))"

section \<open>GMRESSolver and the arrays it shares with its caller\<close>

text \<open>
  \<^verbatim>\<open>GMRESSolver.__init__\<close> may write into the matrix of its caller, so its model works on
  a store of arrays: a cell per array buffer, a reference per Python object.  A reference
  records what the normalisers test: whether the object is a csc sparse matrix, another
  sparse matrix, a numpy array or some other array-like, and whether its dtype is float.
\<close>

type_synonym addr = nat
type_synonym heap = "ndarray list"

datatype kind = Csc | SparseOther | NdArray | ArrayLike

record pyref =
  ref_addr :: addr
  ref_kind :: kind
  ref_float :: bool

type_synonym 'a HM = "heap \<Rightarrow> 'a M \<times> heap"

definition retH :: "'a \<Rightarrow> 'a HM" where
  "retH x = (\<lambda>h. (retM x, h))"

definition liftM :: "'a M \<Rightarrow> 'a HM" where
  "liftM m = (\<lambda>h. (m, h))"

definition bindH :: "'a HM \<Rightarrow> ('a \<Rightarrow> 'b HM) \<Rightarrow> 'b HM" where
  "bindH m f =
     (\<lambda>h. case m h of
        ((Inl e, l), h') \<Rightarrow> ((Inl e, l), h')
      | ((Inr x, l), h') \<Rightarrow> (case f x h' of ((r, l'), h'') \<Rightarrow> ((r, l @ l'), h'')))"

definition allocH :: "ndarray \<Rightarrow> addr HM" where
  "allocH v = (\<lambda>h. (retM (length h), h @ [v]))"

definition readH :: "addr \<Rightarrow> ndarray HM" where
  "readH a = (\<lambda>h. (retM (h ! a), h))"

definition writeH :: "addr \<Rightarrow> ndarray \<Rightarrow> unit HM" where
  "writeH a v = (\<lambda>h. (retM (), h[a := v]))"

text \<open>The store is unchanged on the cells that existed before.\<close>

definition preserves :: "heap \<Rightarrow> heap \<Rightarrow> bool" where
  "preserves h h' = (take (length h) h' = h)"

definition is_sparse_kind :: "kind \<Rightarrow> bool" where
  "is_sparse_kind k = (k = Csc \<or> k = SparseOther)"

definition deref :: "heap \<Rightarrow> pyref \<Rightarrow> matrix" where
  "deref h r = (if is_sparse_kind (ref_kind r) then Sparse (h ! ref_addr r)
                else Dense (h ! ref_addr r))"

text \<open>
  \<^verbatim>\<open>sp.csc_matrix(A)\<close>: a csc matrix is wrapped without copying its buffers; anything else
  is converted into new buffers.
\<close>

definition csc_matrix_h :: "pyref \<Rightarrow> addr HM" where
  "csc_matrix_h A =
     (if ref_kind A = Csc then retH (ref_addr A)
      else bindH (readH (ref_addr A)) allocH)"

text \<open>
  Modelled from the spec: \<^verbatim>\<open>row_norms\<close> and \<^verbatim>\<open>divide_rows\<close> of \<^verbatim>\<open>rbf.sputils\<close>, a Cython
  module of the repository that is not among the sources.  The specification says that the
  solver ``normalizes each row of \<open>A\<close> by its Euclidean norm (in place or on a copy, per a
  configuration flag)''.
\<close>

definition row_norms :: "ndarray \<Rightarrow> ndarray" where
  "row_norms A =
     (let r = hd (shape A); c = prod_list (tl (shape A))
      in \<lparr>shape = [r],
          data = map (\<lambda>i. sqrt (\<Sum>j\<leftarrow>[0..<c]. (data A ! (i * c + j))\<^sup>2)) [0..<r]\<rparr>)"

text \<open>
  Modelled from the spec: the value \<^verbatim>\<open>divide_rows\<close> of \<^verbatim>\<open>rbf.sputils\<close> (not among the
  sources) computes, each row of \<open>A\<close> divided by the entry of \<open>n\<close> for that row.
\<close>

definition divided_rows :: "ndarray \<Rightarrow> ndarray \<Rightarrow> ndarray" where
  "divided_rows A n =
     (let r = hd (shape A); c = prod_list (tl (shape A))
      in \<lparr>shape = shape A,
          data = tabulate2 r c (\<lambda>i j. data A ! (i * c + j) / data n ! i)\<rparr>)"

text \<open>
  Modelled from the spec: \<^verbatim>\<open>divide_rows(A, n, inplace)\<close> of \<^verbatim>\<open>rbf.sputils\<close> (not among the
  sources), on the store: with \<^verbatim>\<open>inplace=True\<close> the array of \<open>A\<close> is overwritten, otherwise the
  result is a new array (``in place or on a copy, per a configuration flag'').
\<close>

definition divide_rows :: "addr \<Rightarrow> ndarray \<Rightarrow> bool \<Rightarrow> addr HM" where
  "divide_rows A n inplace =
     bindH (readH A) (\<lambda>Av.
       if inplace then bindH (writeH A (divided_rows Av n)) (\<lambda>_. retH A)
       else allocH (divided_rows Av n))"

record GMRESSolver =
  G_A :: addr
  G_M :: superlu
  G_n :: ndarray

definition GMRESSolver_init ::
  "backend \<Rightarrow> pyref \<Rightarrow> real \<Rightarrow> real \<Rightarrow> bool \<Rightarrow> GMRESSolver HM" where
  "GMRESSolver_init be A0 drop_tol fill_factor normalize_inplace =
     bindH (csc_matrix_h A0) (\<lambda>A.
     bindH (readH A) (\<lambda>Av.
     (let n = row_norms Av in
      bindH (if normalize_inplace then bindH (divide_rows A n True) (\<lambda>_. retH A)
             else divide_rows A n False) (\<lambda>A.
      bindH (readH A) (\<lambda>Av.
      bindH (liftM (emit (Debug ''computing the ILU decomposition''))) (\<lambda>_.
      bindH (liftM (extcall Spilu (spilu be Av drop_tol fill_factor))) (\<lambda>ilu.
      bindH (liftM (emit (Debug ''done''))) (\<lambda>_.
      retH \<lparr>G_A = A, G_M = ilu, G_n = n\<rparr>))))))))"

text \<open>
  \<^verbatim>\<open>GMRESSolver.solve\<close> unpacks the pair \<^verbatim>\<open>x, info\<close> that \<^verbatim>\<open>gmres\<close> returns, writes
  \<open>info\<close> to the debug log and returns \<open>x\<close>.
\<close>

definition GMRESSolver_solve ::
  "backend \<Rightarrow> heap \<Rightarrow> GMRESSolver \<Rightarrow> ndarray \<Rightarrow> real \<Rightarrow> ndarray M" where
  "GMRESSolver_solve be h self b tol =
     bindM (emit (Debug ''solving the system with GMRES'')) (\<lambda>_.
     bindM (np_div b (G_n self)) (\<lambda>bn.
     bindM (extcall Gmres (gmres be (h ! G_A self) bn tol (G_M self))) (\<lambda>(x, info).
     bindM (emit (DebugInfo ''finished GMRES with info'' info)) (\<lambda>_.
     retM x))))"

section \<open>A reference backend for diagonal systems\<close>

text \<open>
  The theorems below hold for every backend.  To instantiate them, \<open>diag_backend\<close>
  implements the external routines on diagonal matrices, where the factorizations are
  immediate: the LU factors of a diagonal matrix are the identity and the matrix itself, its
  Cholesky factor is the entrywise square root, and LAPACK's \<open>info\<close> is the position of the
  first diagonal entry that is zero (or not positive, for Cholesky).
\<close>

definition diag_of :: "ndarray \<Rightarrow> real list" where
  "diag_of A = map (\<lambda>i. data A ! (i * last (shape A) + i)) [0..<hd (shape A)]"

definition diag_solve :: "real list \<Rightarrow> ndarray \<Rightarrow> ndarray" where
  "diag_solve d b =
     (let t = prod_list (tl (shape b))
      in \<lparr>shape = shape b,
          data = tabulate2 (hd (shape b)) t (\<lambda>i j. data b ! (i * t + j) / d ! i)\<rparr>)"

fun first_zero :: "nat \<Rightarrow> real list \<Rightarrow> int" where
  "first_zero k [] = 0"
| "first_zero k (x # xs) = (if x = 0 then int (Suc k) else first_zero (Suc k) xs)"

fun first_nonpos :: "nat \<Rightarrow> real list \<Rightarrow> int" where
  "first_nonpos k [] = 0"
| "first_nonpos k (x # xs) = (if x \<le> 0 then int (Suc k) else first_nonpos (Suc k) xs)"

definition diag_superlu :: "ndarray \<Rightarrow> superlu" where
  "diag_superlu A = \<lparr>slu_solve = (\<lambda>b. Inr (diag_solve (diag_of A) b))\<rparr>"

definition diag_cholfactor :: "ndarray \<Rightarrow> cholfactor" where
  "diag_cholfactor A =
     \<lparr>ch_D = \<lparr>shape = [hd (shape A)], data = diag_of A\<rparr>,
      ch_P = [0..<hd (shape A)],
      ch_solve_A = (\<lambda>b. Inr (diag_solve (diag_of A) b)),
      ch_solve_L = (\<lambda>b. Inr b),
      ch_L = Inr (np_eye (hd (shape A)))\<rparr>"

definition diag_backend :: "bool \<Rightarrow> backend" where
  "diag_backend has_cholmod =
     \<lparr>dgetrf = (\<lambda>A. Inr (A, map int [0..<hd (shape A)], first_zero 0 (diag_of A))),
      dgetrs = (\<lambda>fac piv b. Inr (diag_solve (diag_of fac) b, 0)),
      dpotrf = (\<lambda>A lower. Inr (\<lparr>shape = shape A, data = map sqrt (data A)\<rparr>,
                               first_nonpos 0 (diag_of A))),
      dpotrs = (\<lambda>L b lower. Inr (diag_solve (map (\<lambda>v. v * v) (diag_of L)) b, 0)),
      dtrtrs = (\<lambda>L b lower. Inr (diag_solve (diag_of L) b, first_zero 0 (diag_of L))),
      splu = (\<lambda>A. Inr (diag_superlu A)),
      HAS_CHOLMOD = has_cholmod,
      cholmod_cholesky = (\<lambda>A. if first_nonpos 0 (diag_of A) \<noteq> 0
                                then Inl CholmodNotPositiveDefiniteError
                                else Inr (diag_cholfactor A)),
      spilu = (\<lambda>A drop_tol fill_factor. Inr (diag_superlu A)),
      gmres = (\<lambda>A b tol M. Inr (diag_solve (diag_of A) b, 0))\<rparr>"

text \<open>Small concrete arrays.\<close>

definition vec :: "real list \<Rightarrow> ndarray" where
  "vec xs = \<lparr>shape = [length xs], data = xs\<rparr>"

definition mat :: "nat \<Rightarrow> nat \<Rightarrow> real list \<Rightarrow> ndarray" where
  "mat r c xs = \<lparr>shape = [r, c], data = xs\<rparr>"

text \<open>The same backend with a \<^verbatim>\<open>gmres\<close> that reports that it did not converge.\<close>

definition nonconverging_backend :: backend where
  "nonconverging_backend =
     (diag_backend True)\<lparr>gmres := (\<lambda>A b tol M. Inr (diag_solve (diag_of A) b, 1))\<rparr>"

text \<open>
  A backend whose LU routines solve with a given matrix \<open>Ci\<close>: \<^verbatim>\<open>dgetrf\<close> accepts every
  matrix and \<^verbatim>\<open>dgetrs\<close> returns \<open>Ci b\<close>.  It is exact for the matrices whose inverse is
  \<open>Ci\<close>.
\<close>

definition inverse_backend :: "ndarray \<Rightarrow> backend" where
  "inverse_backend Ci =
     (diag_backend True)
       \<lparr>dgetrf := (\<lambda>A. Inr (A, map int [0..<hd (shape A)], 0)),
        dgetrs := (\<lambda>fac piv b. case fst (np_dot Ci b) of
                                Inl _ \<Rightarrow> Inl (OtherBackendError ''dgetrs'')
                              | Inr x \<Rightarrow> Inr (x, 0))\<rparr>"

section \<open>The recipes of the specification\<close>

text \<open>
  The Schur-complement recipe in the words of the specification, for an action \<open>Ainv\<close> of
  \<open>A\<^sup>-\<^sup>1\<close>, an action \<open>Sinv\<close> of \<open>S\<^sup>-\<^sup>1\<close> and the matrix \<open>AiB = A\<^sup>-\<^sup>1B\<close>:
  \<open>D\<^sup>Ta = S\<^sup>-\<^sup>1(AiB\<^sup>T a)\<close>, \<open>x = A\<^sup>-\<^sup>1a - AiB D\<^sup>Ta\<close>, and when \<open>b\<close> is present
  \<open>Eb = - S\<^sup>-\<^sup>1b\<close>, \<open>x += - AiB Eb\<close>, \<open>y = D\<^sup>Ta + Eb\<close>.
\<close>

definition schur_recipe ::
  "(ndarray \<Rightarrow> ndarray M) \<Rightarrow> (ndarray \<Rightarrow> ndarray M) \<Rightarrow> ndarray \<Rightarrow> ndarray \<Rightarrow> ndarray option
     \<Rightarrow> (ndarray \<times> ndarray) M" where
  "schur_recipe Ainv Sinv AiB a bopt =
     bindM (np_dot (np_T AiB) a) (\<lambda>AiBta.
     bindM (Sinv AiBta) (\<lambda>Dta.
     bindM (Ainv a) (\<lambda>Aia.
     bindM (np_dot AiB Dta) (\<lambda>AiBDta.
     bindM (np_sub Aia AiBDta) (\<lambda>x.
     case bopt of
       None \<Rightarrow> retM (x, Dta)
     | Some b \<Rightarrow>
         bindM (Sinv b) (\<lambda>Sib.
         bindM (np_dot AiB (np_neg Sib)) (\<lambda>AiBEb.
         bindM (np_add x (np_neg AiBEb)) (\<lambda>x'.
         bindM (np_add Dta (np_neg Sib)) (\<lambda>y.
         retM (x', y))))))))))"

text \<open>
  The triangular solve of the sparse factor in the words of the claim: the entries of
  \<open>1 / sqrt D\<close> (as a column when \<open>b\<close> is a matrix) times \<^verbatim>\<open>solve_L\<close> of the rows of \<open>b\<close>
  permuted by the fill-reducing permutation.
\<close>

definition inv_sqrt :: "ndarray \<Rightarrow> ndarray" where
  "inv_sqrt d = \<lparr>shape = shape d, data = map (\<lambda>v. 1 / sqrt v) (data d)\<rparr>"

definition scaled_permuted_solve_L ::
  "cholfactor \<Rightarrow> ndarray \<Rightarrow> nat list \<Rightarrow> ndarray \<Rightarrow> ndarray M" where
  "scaled_permuted_solve_L factor d p b =
     bindM (if ndim b = 2 then newaxis1 (inv_sqrt d) else retM (inv_sqrt d)) (\<lambda>scale.
     bindM (take_rows b p) (\<lambda>bp.
     bindM (extcall Cholmod_solve_L (ch_solve_L factor bp)) (\<lambda>y.
     np_mul scale y)))"

text \<open>
  Exact arithmetic: the result \<open>res\<close> of a solve is an array \<open>x\<close> of the shape of the
  right-hand side \<open>c\<close> with \<open>A x = c\<close>.
\<close>

definition solves_exactly :: "ndarray M \<Rightarrow> ndarray \<Rightarrow> ndarray \<Rightarrow> bool" where
  "solves_exactly res A c =
     (case fst res of
        Inl _ \<Rightarrow> False
      | Inr x \<Rightarrow> shape x = shape c \<and> wf_array x \<and> fst (np_dot A x) = Inr c)"

text \<open>
  Exact arithmetic for a Cholesky solve, stated on the external routine that performs it:
  CHOLMOD's \<^verbatim>\<open>solve_A\<close> of the factor, or LAPACK's \<^verbatim>\<open>dpotrs\<close> with the Cholesky factor,
  returns for the right-hand side \<open>c\<close> an array \<open>x\<close> of the shape of \<open>c\<close> with \<open>A x = c\<close>.
\<close>

definition exact_solution :: "ndarray \<Rightarrow> ndarray \<Rightarrow> ndarray \<Rightarrow> bool" where
  "exact_solution A c x = (shape x = shape c \<and> wf_array x \<and> fst (np_dot A x) = Inr c)"

definition routine_solves_exactly :: "backend \<Rightarrow> pd_solver \<Rightarrow> ndarray \<Rightarrow> ndarray \<Rightarrow> bool" where
  "routine_solves_exactly be s A c =
     (case s of
        SparsePosDefSolver factor d p \<Rightarrow>
          (case ch_solve_A factor c of
             Inl _ \<Rightarrow> False
           | Inr x \<Rightarrow> exact_solution A c x)
      | DensePosDefSolver chol \<Rightarrow>
          (case dpotrs be chol c True of
             Inl _ \<Rightarrow> False
           | Inr (x, info) \<Rightarrow> info = 0 \<and> exact_solution A c x))"

text \<open>
  The right-hand sides of \<^verbatim>\<open>PartitionedSolver.solve\<close> in the words of the specification:
  a missing \<open>b\<close> is the zero array of shape \<^verbatim>\<open>(p,) + a.shape[1:]\<close>, the augmented system
  is solved for \<open>a\<close> stacked on \<open>b\<close> (by the action \<open>Cinv\<close> of its inverse), and the
  solution is split at row \<open>n\<close>.
\<close>

definition split_augmented_solution ::
  "(ndarray \<Rightarrow> ndarray M) \<Rightarrow> nat \<Rightarrow> nat \<Rightarrow> ndarray \<Rightarrow> ndarray option \<Rightarrow> (ndarray \<times> ndarray) M" where
  "split_augmented_solution Cinv n p a bopt =
     (let b = (case bopt of None \<Rightarrow> np_zeros (p # tl (shape a)) | Some b \<Rightarrow> b) in
      bindM (np_concatenate0 a b) (\<lambda>c.
      bindM (Cinv c) (\<lambda>xy.
      bindM (rows_upto n xy) (\<lambda>x.
      bindM (rows_from n xy) (\<lambda>y.
      retM (x, y))))))"

section \<open>The direct solvers and the arrays of their callers\<close>

text \<open>
  The constructors and the \<^verbatim>\<open>solve\<close> methods of the four direct solvers, on the store.
  The normalisers are called with \<^verbatim>\<open>copy=False\<close>: they return the caller's own object when
  no conversion is needed and a new array otherwise.  Every numpy operation and every
  external routine returns a new array and leaves its operands alone (the LAPACK wrappers
  are called with their default \<^verbatim>\<open>overwrite\<close> flags), so what they compute is the
  value-level model above.  The only statement of these classes that writes into an
  existing array is \<^verbatim>\<open>xy += ...\<close> in the two partitioned \<^verbatim>\<open>solve\<close> methods.
\<close>

definition bindH_value :: "pyref \<Rightarrow> matrix HM" where
  "bindH_value r = (\<lambda>h. (retM (deref h r), h))"

definition as_sparse_or_array_h :: "pyref \<Rightarrow> pyref HM" where
  "as_sparse_or_array_h A =
     (if is_sparse_kind (ref_kind A) then
        (if ref_kind A = Csc \<and> ref_float A then retH A
         else bindH (bindH (readH (ref_addr A)) allocH) (\<lambda>a.
              retH \<lparr>ref_addr = a, ref_kind = Csc, ref_float = True\<rparr>))
      else
        (if ref_kind A = NdArray \<and> ref_float A then retH A
         else bindH (bindH (readH (ref_addr A)) allocH) (\<lambda>a.
              retH \<lparr>ref_addr = a, ref_kind = NdArray, ref_float = True\<rparr>)))"

definition as_array_h :: "pyref \<Rightarrow> addr HM" where
  "as_array_h A =
     (if ref_kind A = NdArray \<and> ref_float A then retH (ref_addr A)
      else bindH (readH (ref_addr A)) allocH)"

definition Solver_init_h :: "backend \<Rightarrow> pyref \<Rightarrow> bool \<Rightarrow> Solver HM" where
  "Solver_init_h be A0 build_inverse =
     bindH (as_sparse_or_array_h A0) (\<lambda>A.
     bindH (bindH_value A) (\<lambda>Av.
     liftM (Solver_init be Av build_inverse)))"

definition Solver_solve_h :: "backend \<Rightarrow> Solver \<Rightarrow> pyref \<Rightarrow> ndarray HM" where
  "Solver_solve_h be self b0 =
     bindH (as_array_h b0) (\<lambda>b.
     bindH (readH b) (\<lambda>bv.
     liftM (Solver_solve be self (Dense bv))))"

definition PosDefSolver_init_h :: "backend \<Rightarrow> pyref \<Rightarrow> bool \<Rightarrow> PosDefSolver HM" where
  "PosDefSolver_init_h be A0 build_inverse =
     bindH (as_sparse_or_array_h A0) (\<lambda>A.
     bindH (bindH_value A) (\<lambda>Av.
     liftM (PosDefSolver_init be Av build_inverse)))"

definition PosDefSolver_solve_h :: "backend \<Rightarrow> PosDefSolver \<Rightarrow> pyref \<Rightarrow> ndarray HM" where
  "PosDefSolver_solve_h be self b0 =
     bindH (as_array_h b0) (\<lambda>b.
     bindH (readH b) (\<lambda>bv.
     liftM (PosDefSolver_solve be self (Dense bv))))"

definition PosDefSolver_solve_L_h :: "backend \<Rightarrow> PosDefSolver \<Rightarrow> pyref \<Rightarrow> ndarray HM" where
  "PosDefSolver_solve_L_h be self b0 =
     bindH (as_array_h b0) (\<lambda>b.
     bindH (readH b) (\<lambda>bv.
     liftM (PosDefSolver_solve_L be self (Dense bv))))"

definition PartitionedSolver_init_h ::
  "backend \<Rightarrow> pyref \<Rightarrow> pyref \<Rightarrow> bool \<Rightarrow> PartitionedSolver HM" where
  "PartitionedSolver_init_h be A0 B0 build_inverse =
     bindH (as_sparse_or_array_h A0) (\<lambda>A.
     bindH (as_array_h B0) (\<lambda>B.
     bindH (bindH_value A) (\<lambda>Av.
     bindH (readH B) (\<lambda>Bv.
     liftM (PartitionedSolver_init be Av (Dense Bv) build_inverse)))))"

definition PartitionedPosDefSolver_init_h ::
  "backend \<Rightarrow> pyref \<Rightarrow> pyref \<Rightarrow> bool \<Rightarrow> PartitionedPosDefSolver HM" where
  "PartitionedPosDefSolver_init_h be A0 B0 build_inverse =
     bindH (as_sparse_or_array_h A0) (\<lambda>A.
     bindH (as_array_h B0) (\<lambda>B.
     bindH (bindH_value A) (\<lambda>Av.
     bindH (readH B) (\<lambda>Bv.
     liftM (PartitionedPosDefSolver_init be Av (Dense Bv) build_inverse)))))"

text \<open>
  The \<^verbatim>\<open>build_inverse\<close> branch shared by the two partitioned \<^verbatim>\<open>solve\<close> methods:
  \<^verbatim>\<open>xy = inverse[:, :n].dot(a)\<close> is a new array, and \<^verbatim>\<open>xy += inverse[:, n:].dot(b)\<close> writes
  into it.
\<close>

definition iadd_h :: "addr \<Rightarrow> ndarray \<Rightarrow> unit HM" where
  "iadd_h xy z =
     bindH (readH xy) (\<lambda>cur.
     bindH (liftM (np_iadd cur z)) (\<lambda>v.
     writeH xy v))"

definition cached_inverse_xy_h :: "nat \<Rightarrow> ndarray \<Rightarrow> ndarray \<Rightarrow> pyref option \<Rightarrow> ndarray HM" where
  "cached_inverse_xy_h n iv a b0 =
     bindH (liftM (cols_upto n iv)) (\<lambda>left.
     bindH (liftM (np_dot left a)) (\<lambda>xyv.
     bindH (allocH xyv) (\<lambda>xy.
     bindH (case b0 of
              None \<Rightarrow> retH ()
            | Some b1 \<Rightarrow>
                bindH (as_array_h b1) (\<lambda>b.
                bindH (readH b) (\<lambda>bv.
                bindH (liftM (cols_from n iv)) (\<lambda>right.
                bindH (liftM (np_dot right bv)) (\<lambda>z.
                iadd_h xy z))))) (\<lambda>_.
     readH xy))))"

definition PartitionedSolver_solve_h ::
  "backend \<Rightarrow> PartitionedSolver \<Rightarrow> pyref \<Rightarrow> pyref option \<Rightarrow> (ndarray \<times> ndarray) HM" where
  "PartitionedSolver_solve_h be self a0 b0 =
     bindH (as_array_h a0) (\<lambda>a.
     bindH (readH a) (\<lambda>av.
     bindH (case PS_inverse self of
              Some iv \<Rightarrow> cached_inverse_xy_h (PS_n self) iv av b0
            | None \<Rightarrow>
                bindH (case b0 of
                         None \<Rightarrow> retH (np_zeros (PS_p self # tl (shape av)))
                       | Some b1 \<Rightarrow> bindH (as_array_h b1) readH) (\<lambda>bv.
                bindH (liftM (np_concatenate0 av bv)) (\<lambda>c.
                liftM (lu_solver_solve be (PS_solver self) c)))) (\<lambda>xy.
     bindH (liftM (rows_upto (PS_n self) xy)) (\<lambda>x.
     bindH (liftM (rows_from (PS_n self) xy)) (\<lambda>y.
     retH (x, y))))))"

definition PartitionedPosDefSolver_solve_h ::
  "backend \<Rightarrow> PartitionedPosDefSolver \<Rightarrow> pyref \<Rightarrow> pyref option \<Rightarrow> (ndarray \<times> ndarray) HM" where
  "PartitionedPosDefSolver_solve_h be self a0 b0 =
     bindH (as_array_h a0) (\<lambda>a.
     bindH (readH a) (\<lambda>av.
     case PPD_inverse self of
       Some iv \<Rightarrow>
         bindH (cached_inverse_xy_h (PPD_n self) iv av b0) (\<lambda>xy.
         bindH (liftM (rows_upto (PPD_n self) xy)) (\<lambda>x.
         bindH (liftM (rows_from (PPD_n self) xy)) (\<lambda>y.
         retH (x, y))))
     | None \<Rightarrow>
         bindH (liftM (np_dot (np_T (PPD_AiB self)) av)) (\<lambda>AiBta.
         bindH (liftM (pd_solver_solve be (PPD_BtAiB_solver self) AiBta)) (\<lambda>Dta.
         bindH (liftM (pd_solver_solve be (PPD_A_solver self) av)) (\<lambda>Aia.
         bindH (liftM (np_dot (PPD_AiB self) Dta)) (\<lambda>AiBDta.
         bindH (liftM (np_sub Aia AiBDta)) (\<lambda>Ca.
         case b0 of
           None \<Rightarrow> retH (Ca, Dta)
         | Some b1 \<Rightarrow>
             bindH (as_array_h b1) (\<lambda>b.
             bindH (readH b) (\<lambda>bv.
             bindH (liftM (pd_solver_solve be (PPD_BtAiB_solver self) bv)) (\<lambda>Sib.
             (let Eb = np_neg Sib in
              bindH (liftM (np_dot (PPD_AiB self) Eb)) (\<lambda>AiBEb.
              (let Db = np_neg AiBEb in
               bindH (liftM (np_add Ca Db)) (\<lambda>x.
               bindH (liftM (np_add Dta Eb)) (\<lambda>y.
               retH (x, y))))))))))))))))"

text \<open>
  A computation keeps the first \<open>k\<close> cells of the store: it may read them, allocate new
  cells and write into cells from \<open>k\<close> on.
\<close>

definition keeps :: "nat \<Rightarrow> 'a HM \<Rightarrow> bool" where
  "keeps k m =
     (\<forall>h. k \<le> length h \<longrightarrow> take k (snd (m h)) = take k h \<and> length h \<le> length (snd (m h)))"

section \<open>Basic facts about computations\<close>

named_theorems avoids_intros

lemma bindM_retM [simp]: "bindM (retM x) f = f x"
  by (simp add: bindM_def retM_def split: prod.splits)

lemma bindM_raiseM [simp]: "bindM (raiseM e) f = raiseM e"
  by (simp add: bindM_def raiseM_def)

lemma fst_raiseM [simp]: "fst (raiseM e) = Inl e" and snd_raiseM [simp]: "snd (raiseM e) = []"
  by (simp_all add: raiseM_def)

lemma fst_retM [simp]: "fst (retM x) = Inr x" and snd_retM [simp]: "snd (retM x) = []"
  by (simp_all add: retM_def)

lemma avoids_bindM [avoids_intros]:
  "avoids m e \<Longrightarrow> (\<And>x. avoids (f x) e) \<Longrightarrow> avoids (bindM m f) e"
  by (cases m; cases "fst m") (auto simp: avoids_def bindM_def split: prod.splits, metis fst_conv)

lemma avoids_if [avoids_intros]:
  "(c \<Longrightarrow> avoids a e) \<Longrightarrow> (\<not> c \<Longrightarrow> avoids b e) \<Longrightarrow> avoids (if c then a else b) e"
  by simp

lemma avoids_case_prod [avoids_intros]:
  "(\<And>a b. avoids (f a b) e) \<Longrightarrow> avoids (case_prod f x) e"
  by (cases x) simp

lemma avoids_retM [avoids_intros]: "avoids (retM x) e"
  by (simp add: avoids_def)

lemma avoids_emit [avoids_intros]: "avoids (emit ev) e"
  by (simp add: avoids_def emit_def)

lemma avoids_raiseM: "e' \<noteq> e \<Longrightarrow> avoids (raiseM e') e"
  by (simp add: avoids_def)

lemma avoids_extcall [avoids_intros]: "avoids (extcall r res) (LinAlgError m)"
  by (simp add: avoids_def extcall_def split: sum.splits)

lemma avoids_concat_axis [avoids_intros]: "avoids (concat_axis k a b) (LinAlgError m)"
  by (simp add: avoids_def concat_axis_def Let_def)

lemma avoids_np_block2 [avoids_intros]: "avoids (np_block2 a b c d) (LinAlgError m)"
  unfolding np_block2_def Let_def by (intro avoids_intros)

lemma avoids_np_dot [avoids_intros]: "avoids (np_dot a b) (LinAlgError m)"
  by (simp add: avoids_def np_dot_def Let_def)

lemma avoids_elementwise [avoids_intros]: "avoids (elementwise f a b) (LinAlgError m)"
  by (simp add: avoids_def elementwise_def split: option.splits)

lemma avoids_nonzeros [avoids_intros]: "avoids (nonzeros_percentage A) (LinAlgError m)"
  unfolding nonzeros_percentage_def unpack2_def avoids_def
  by (auto split: list.splits)

lemma msg_neq: "''Singular matrix'' \<noteq> msg_fewer_rows" "''Matrix not positive definite'' \<noteq> msg_fewer_rows"
  by (simp_all add: msg_fewer_rows_def)

lemma avoids_lu [avoids_intros]: "avoids (lu be A) (LinAlgError msg_fewer_rows)"
  unfolding lu_def
  by (intro avoids_intros avoids_raiseM) (simp_all add: msg_neq)

lemma avoids_cholesky [avoids_intros]: "avoids (cholesky be A lw) (LinAlgError msg_fewer_rows)"
  unfolding cholesky_def
  by (intro avoids_intros avoids_raiseM) (simp_all add: msg_neq)

lemma avoids_solve_lu [avoids_intros]: "avoids (solve_lu be fac piv b) (LinAlgError m)"
  unfolding solve_lu_def
  by (intro avoids_intros avoids_raiseM) simp_all

lemma avoids_solve_cholesky [avoids_intros]: "avoids (solve_cholesky be L b lw) (LinAlgError m)"
  unfolding solve_cholesky_def
  by (intro avoids_intros avoids_raiseM) simp_all

lemma avoids_lu_solver_solve [avoids_intros]: "avoids (lu_solver_solve be s b) (LinAlgError m)"
  unfolding lu_solver_solve_def
  by (cases s) (simp_all add: avoids_intros)

lemma avoids_pd_solver_solve [avoids_intros]: "avoids (pd_solver_solve be s b) (LinAlgError m)"
  unfolding pd_solver_solve_def
  by (cases s) (simp_all add: avoids_intros)

lemma avoids_SparseSolver_init [avoids_intros]: "avoids (SparseSolver_init be A) (LinAlgError m)"
  unfolding SparseSolver_init_def
  by (intro avoids_intros)

lemma avoids_DenseSolver_init [avoids_intros]:
  "avoids (DenseSolver_init be A) (LinAlgError msg_fewer_rows)"
  unfolding DenseSolver_init_def
  by (intro avoids_intros)

lemma avoids_SparsePosDefSolver_init [avoids_intros]:
  "avoids (SparsePosDefSolver_init be A) (LinAlgError m)"
  unfolding SparsePosDefSolver_init_def
  by (intro avoids_intros avoids_raiseM) simp

lemma avoids_DensePosDefSolver_init [avoids_intros]:
  "avoids (DensePosDefSolver_init be A) (LinAlgError msg_fewer_rows)"
  unfolding DensePosDefSolver_init_def
  by (intro avoids_intros)

lemma PartitionedSolver_init_proceeds:
  assumes "shape (as_array B) = [n, p]" and "\<not> n < p"
  shows "avoids (PartitionedSolver_init be A B bi) (LinAlgError msg_fewer_rows)"
  using assms unfolding PartitionedSolver_init_def Let_def unpack2_def sp_bmat_def
  by simp (intro avoids_intros conjI impI)

lemma PartitionedPosDefSolver_init_proceeds:
  assumes "shape (as_array B) = [n, p]" and "\<not> n < p"
  shows "avoids (PartitionedPosDefSolver_init be A B bi) (LinAlgError msg_fewer_rows)"
  using assms unfolding PartitionedPosDefSolver_init_def Let_def unpack2_def np_sub_def
  by simp (intro avoids_intros conjI impI)

lemma bindM_assoc: "bindM (bindM m f) g = bindM m (\<lambda>x. bindM (f x) g)"
  by (auto simp: bindM_def split: prod.splits sum.splits)

lemma bindM_emit: "bindM (emit ev) f = (fst (f ()), ev # snd (f ()))"
  by (simp add: bindM_def emit_def split: prod.splits)

lemma fst_bindM_emit [simp]: "fst (bindM (emit ev) f) = fst (f ())"
  and snd_bindM_emit [simp]: "snd (bindM (emit ev) f) = ev # snd (f ())"
  by (simp_all add: bindM_emit)

lemma issparse_simps [simp]:
  "issparse (Sparse a)" "\<not> issparse (Dense a)"
  "toarray (Sparse a) = a" "toarray (Dense a) = a"
  "as_sparse_or_array (Sparse a) = Sparse a" "as_sparse_or_array (Dense a) = Dense a"
  "as_array (Sparse a) = a" "as_array (Dense a) = a"
  by (simp_all add: issparse_def toarray_def as_sparse_or_array_def as_array_def)

lemma bindM_Inr:
  "fst (bindM m f) = Inr y \<Longrightarrow> \<exists>x. fst m = Inr x \<and> fst (f x) = Inr y"
  by (cases m; cases "fst m") (auto simp: bindM_def split: prod.splits)

lemma snd_elementwise [simp]: "snd (elementwise f a b) = []"
  by (simp add: elementwise_def retM_def raiseM_def split: option.splits)

lemma shape_np_zeros [simp]: "shape (np_zeros sh) = sh"
  and data_np_zeros [simp]: "data (np_zeros sh) = replicate (prod_list sh) 0"
  by (simp_all add: np_zeros_def)

lemma snd_np_dot [simp]: "snd (np_dot a b) = []"
  by (simp add: np_dot_def Let_def retM_def raiseM_def)

subsection \<open>Products of matrices\<close>

lemma tabulate2_Suc: "tabulate2 (Suc n) t f = tabulate2 n t f @ map (f n) [0..<t]"
  by (simp add: tabulate2_def)

lemma length_tabulate2 [simp]: "length (tabulate2 n t f) = n * t"
  by (induction n) (simp_all add: tabulate2_Suc, simp add: tabulate2_def)

lemma nth_tabulate2: "i < n \<Longrightarrow> j < t \<Longrightarrow> tabulate2 n t f ! (i * t + j) = f i j"
proof (induction n)
  case 0
  then show ?case by simp
next
  case (Suc n)
  show ?case
  proof (cases "i < n")
    case True
    then have "Suc i \<le> n" by simp
    then have "Suc i * t \<le> n * t" by (rule mult_le_mono1)
    with Suc.prems have "i * t + j < n * t" by simp
    with Suc True show ?thesis by (simp add: tabulate2_Suc nth_append)
  next
    case False
    with Suc.prems have "i = n" by simp
    with Suc.prems show ?thesis by (simp add: tabulate2_Suc nth_append)
  qed
qed

lemma tabulate2_eqI:
  assumes "length xs = n * t"
    and "\<And>i j. i < n \<Longrightarrow> j < t \<Longrightarrow> xs ! (i * t + j) = f i j"
  shows "xs = tabulate2 n t f"
proof (rule nth_equalityI)
  show "length xs = length (tabulate2 n t f)" using assms(1) by simp
next
  fix k assume k: "k < length xs"
  with assms(1) have t: "0 < t" by (cases t) simp_all
  from k assms(1) have i: "k div t < n" by (simp add: less_mult_imp_div_less)
  from t have j: "k mod t < t" by simp
  have e: "k = (k div t) * t + k mod t" by simp
  have "xs ! ((k div t) * t + k mod t) = f (k div t) (k mod t)" using assms(2) [OF i j] .
  moreover have "tabulate2 n t f ! ((k div t) * t + k mod t) = f (k div t) (k mod t)"
    using nth_tabulate2 [OF i j] .
  ultimately show "xs ! k = tabulate2 n t f ! k" using e by metis
qed

lemma tabulate2_cong:
  assumes "\<And>i j. i < n \<Longrightarrow> j < t \<Longrightarrow> f i j = g i j"
  shows "tabulate2 n t f = tabulate2 n t g"
  by (rule tabulate2_eqI) (simp_all add: nth_tabulate2 assms)

text \<open>The product of a matrix with a vector or a matrix.\<close>

lemma np_dot_mat:
  assumes "shape a = [n, m]" and "shape b = m # ts" and "length ts \<le> 1"
  shows "np_dot a b =
         retM \<lparr>shape = n # ts,
               data = tabulate2 n (prod_list ts)
                        (\<lambda>i j. \<Sum>l\<leftarrow>[0..<m]. data a ! (i * m + l) * data b ! (l * prod_list ts + j))\<rparr>"
proof (cases ts)
  case Nil
  with assms show ?thesis
    by (simp add: np_dot_def Let_def dot_data_def tabulate2_def)
next
  case (Cons t ts')
  with assms have "ts = [t]" by simp
  with assms show ?thesis
    by (simp add: np_dot_def Let_def dot_data_def tabulate2_def)
qed

lemma sum_list_upt_cong:
  "(\<And>l. l < m \<Longrightarrow> f l = g l) \<Longrightarrow> (\<Sum>l\<leftarrow>[0..<m]. f l) = (\<Sum>l\<leftarrow>[0..<m]. g l :: real)"
  by (rule arg_cong [where f = sum_list]) simp

lemma sum_list_upt_delta:
  "i < n \<Longrightarrow> (\<Sum>l\<leftarrow>[0..<n]. (if i = l then 1 else 0) * f l) = (f i :: real)"
  by (simp add: interv_sum_list_conv_sum_set_nat sum.delta' if_distrib [where f = "\<lambda>x. x * _"] cong: if_cong)

lemma np_eye_entry: "i < n \<Longrightarrow> l < n \<Longrightarrow> data (np_eye n) ! (i * n + l) = (if i = l then 1 else 0)"
  by (simp add: np_eye_def nth_tabulate2)

lemma np_dot_eye_left:
  assumes "shape b = n # ts" and "length ts \<le> 1" and "wf_array b"
  shows "np_dot (np_eye n) b = retM b"
proof -
  have s: "shape (np_eye n) = [n, n]" by (simp add: np_eye_def)
  have l: "length (data b) = n * prod_list ts" using assms by (simp add: wf_array_def)
  have "data b = tabulate2 n (prod_list ts)
                   (\<lambda>i j. \<Sum>l\<leftarrow>[0..<n]. data (np_eye n) ! (i * n + l) * data b ! (l * prod_list ts + j))"
  proof (rule tabulate2_eqI [OF l])
    fix i j assume i: "i < n" and j: "j < prod_list ts"
    have "(\<Sum>l\<leftarrow>[0..<n]. data (np_eye n) ! (i * n + l) * data b ! (l * prod_list ts + j))
          = (\<Sum>l\<leftarrow>[0..<n]. (if i = l then 1 else 0) * data b ! (l * prod_list ts + j))"
      by (rule sum_list_upt_cong) (simp add: np_eye_entry i)
    also have "\<dots> = data b ! (i * prod_list ts + j)"
      using sum_list_upt_delta [OF i] .
    finally show "data b ! (i * prod_list ts + j)
          = (\<Sum>l\<leftarrow>[0..<n]. data (np_eye n) ! (i * n + l) * data b ! (l * prod_list ts + j))"
      by simp
  qed
  then show ?thesis
    using np_dot_mat [OF s assms(1,2)] assms(1) by (cases b) simp
qed

lemma sum_list_upt_swap:
  "(\<Sum>l\<leftarrow>[0..<k]. (\<Sum>q\<leftarrow>[0..<m]. f q l) * g l)
   = (\<Sum>q\<leftarrow>[0..<m]. \<Sum>l\<leftarrow>[0..<k]. f q l * (g l :: real))"
proof -
  have "(\<Sum>l\<leftarrow>[0..<k]. (\<Sum>q\<leftarrow>[0..<m]. f q l) * g l)
        = (\<Sum>l\<in>{0..<k}. \<Sum>q\<in>{0..<m}. f q l * g l)"
    by (simp add: interv_sum_list_conv_sum_set_nat sum_distrib_right)
  also have "\<dots> = (\<Sum>q\<in>{0..<m}. \<Sum>l\<in>{0..<k}. f q l * g l)"
    by (rule sum.swap)
  finally show ?thesis
    by (simp add: interv_sum_list_conv_sum_set_nat)
qed

lemma np_dot_assoc:
  assumes "shape A = [n, m]" and "shape X = [m, k]" and "shape b = k # ts" and "length ts \<le> 1"
  shows "bindM (np_dot A X) (\<lambda>AX. np_dot AX b) = bindM (np_dot X b) (\<lambda>Xb. np_dot A Xb)"
proof -
  let ?t = "prod_list ts"
  let ?AX = "\<lparr>shape = [n, k],
              data = tabulate2 n k (\<lambda>i j. \<Sum>l\<leftarrow>[0..<m]. data A ! (i * m + l) * data X ! (l * k + j))\<rparr>"
  let ?Xb = "\<lparr>shape = m # ts,
              data = tabulate2 m ?t (\<lambda>i j. \<Sum>l\<leftarrow>[0..<k]. data X ! (i * k + l) * data b ! (l * ?t + j))\<rparr>"
  have 1: "np_dot A X = retM ?AX"
    using np_dot_mat [OF assms(1), of X "[k]"] assms(2) by simp
  have 2: "np_dot X b = retM ?Xb"
    using np_dot_mat [OF assms(2,3,4)] .
  have 3: "np_dot ?AX b = retM \<lparr>shape = n # ts,
             data = tabulate2 n ?t (\<lambda>i j. \<Sum>l\<leftarrow>[0..<k]. data ?AX ! (i * k + l) * data b ! (l * ?t + j))\<rparr>"
    using np_dot_mat [of ?AX n k b ts] assms(3,4) by simp
  have 4: "np_dot A ?Xb = retM \<lparr>shape = n # ts,
             data = tabulate2 n ?t (\<lambda>i j. \<Sum>l\<leftarrow>[0..<m]. data A ! (i * m + l) * data ?Xb ! (l * ?t + j))\<rparr>"
    using np_dot_mat [of A n m ?Xb ts] assms(1,4) by simp
  have "tabulate2 n ?t (\<lambda>i j. \<Sum>l\<leftarrow>[0..<k]. data ?AX ! (i * k + l) * data b ! (l * ?t + j))
      = tabulate2 n ?t (\<lambda>i j. \<Sum>l\<leftarrow>[0..<m]. data A ! (i * m + l) * data ?Xb ! (l * ?t + j))"
  proof (rule tabulate2_cong)
    fix i j assume i: "i < n" and j: "j < ?t"
    have "(\<Sum>l\<leftarrow>[0..<k]. data ?AX ! (i * k + l) * data b ! (l * ?t + j))
          = (\<Sum>l\<leftarrow>[0..<k]. (\<Sum>q\<leftarrow>[0..<m]. data A ! (i * m + q) * data X ! (q * k + l))
                               * data b ! (l * ?t + j))"
      by (rule sum_list_upt_cong) (simp add: nth_tabulate2 i)
    also have "\<dots> = (\<Sum>q\<leftarrow>[0..<m]. \<Sum>l\<leftarrow>[0..<k].
                        data A ! (i * m + q) * data X ! (q * k + l) * data b ! (l * ?t + j))"
      by (rule sum_list_upt_swap)
    also have "\<dots> = (\<Sum>q\<leftarrow>[0..<m]. data A ! (i * m + q)
                        * (\<Sum>l\<leftarrow>[0..<k]. data X ! (q * k + l) * data b ! (l * ?t + j)))"
      by (simp add: interv_sum_list_conv_sum_set_nat sum_distrib_left mult.assoc)
    also have "\<dots> = (\<Sum>q\<leftarrow>[0..<m]. data A ! (i * m + q) * data ?Xb ! (q * ?t + j))"
      by (rule sum_list_upt_cong) (simp add: nth_tabulate2 j)
    finally show "(\<Sum>l\<leftarrow>[0..<k]. data ?AX ! (i * k + l) * data b ! (l * ?t + j))
          = (\<Sum>q\<leftarrow>[0..<m]. data A ! (i * m + q) * data ?Xb ! (q * ?t + j))" .
  qed
  with 1 2 3 4 show ?thesis by simp
qed

lemma np_dot_eq: "np_dot a b = (fst (np_dot a b), [])"
  by (simp add: prod_eq_iff)

lemma fst_np_dot_Inr: "fst (np_dot a b) = Inr c \<Longrightarrow> np_dot a b = retM c"
  by (simp add: prod_eq_iff retM_def)

text \<open>Unfolding sets for evaluating the model on concrete inputs.\<close>

lemmas monad_defs = retM_def raiseM_def bindM_def emit_def extcall_def
lemmas array_defs = np_zeros_def np_eye_def tabulate2_def shape0_def unpack2_def np_T_def
  dot_data_def np_dot_def broadcast_shapes_def bget_def elementwise_def np_add_def np_sub_def
  np_mul_def np_div_def np_neg_def np_iadd_def concat_axis_def np_concatenate0_def promote_def
  np_block2_def rows_upto_def rows_from_def cols_upto_def cols_from_def take_rows_def
  newaxis1_def np_argsort_def ndim_def issparse_def toarray_def as_sparse_or_array_def
  as_array_def vec_def mat_def wf_array_def
lemmas diag_defs = diag_backend_def diag_of_def diag_solve_def diag_superlu_def diag_cholfactor_def
lemmas solver_defs = lu_def cholesky_def solve_lu_def solve_cholesky_def solve_triangular_def
  nonzeros_percentage_def SparseSolver_init_def DenseSolver_init_def lu_solver_solve_def
  Solver_init_def Solver_solve_def SparsePosDefSolver_init_def DensePosDefSolver_init_def
  pd_solver_solve_def SparsePosDefSolver_solve_L_def pd_solver_solve_L_def pd_solver_L_def
  PosDefSolver_init_def PosDefSolver_solve_def PosDefSolver_solve_L_def PosDefSolver_L_def
  is_positive_definite_def sp_bmat_def PartitionedSolver_init_def PartitionedSolver_xy_def
  PartitionedSolver_solve_def PartitionedPosDefSolver_init_def PartitionedPosDefSolver_solve_def
lemmas eval_defs = monad_defs array_defs diag_defs solver_defs Let_def

section \<open>Columns, rows and sums\<close>

lemma index_in_range:
  assumes "l < p" and "j < (t::nat)"
  shows "l * t + j < p * t"
proof -
  from assms(1) have "Suc l \<le> p" by simp
  then have "Suc l * t \<le> p * t" by (rule mult_le_mono1)
  with assms(2) show ?thesis by simp
qed

lemma fst_bindM_Inr: "fst m = Inr x \<Longrightarrow> fst (bindM m f) = fst (f x)"
  by (cases m) (simp add: bindM_def split: prod.splits)

lemma fst_bindM_Inl: "fst m = Inl e \<Longrightarrow> fst (bindM m f) = Inl e"
  by (cases m) (simp add: bindM_def split: prod.splits)

lemma concat_take_drop_tabulate2:
  assumes "length xs = r * m" and "c + w \<le> m"
  shows "concat (map (\<lambda>i. take w (drop (i * m + c) xs)) [0..<r])
         = tabulate2 r w (\<lambda>i l. xs ! (i * m + c + l))"
proof -
  have "take w (drop (i * m + c) xs) = map (\<lambda>l. xs ! (i * m + c + l)) [0..<w]" if "i < r" for i
  proof (rule nth_equalityI)
    from that have "Suc i \<le> r" by simp
    then have "Suc i * m \<le> r * m" by (rule mult_le_mono1)
    with assms show "length (take w (drop (i * m + c) xs))
                     = length (map (\<lambda>l. xs ! (i * m + c + l)) [0..<w])"
      by simp
  next
    fix k assume "k < length (take w (drop (i * m + c) xs))"
    then have "k < w" and "i * m + c + k < length xs" by (simp_all add: less_diff_conv add.commute)
    then show "take w (drop (i * m + c) xs) ! k = map (\<lambda>l. xs ! (i * m + c + l)) [0..<w] ! k"
      by simp
  qed
  then have "map (\<lambda>i. take w (drop (i * m + c) xs)) [0..<r]
           = map (\<lambda>i. map (\<lambda>l. xs ! (i * m + c + l)) [0..<w]) [0..<r]"
    by simp
  then show ?thesis
    by (simp only: tabulate2_def)
qed

lemma sum_list_upt_add:
  "(\<Sum>l\<leftarrow>[0..<n + p]. f l) = (\<Sum>l\<leftarrow>[0..<n]. f l) + (\<Sum>l\<leftarrow>[0..<p]. f (n + l) :: real)"
  by (induction p) simp_all

lemma map2_tabulate2:
  "map2 h (tabulate2 r t f) (tabulate2 r t g) = tabulate2 r t (\<lambda>i j. h (f i j) (g i j))"
  by (rule tabulate2_eqI) (simp_all add: index_in_range nth_tabulate2)

lemma tabulate2_const: "tabulate2 r t (\<lambda>i j. c) = replicate (r * t) c"
  by (rule sym, rule tabulate2_eqI) (simp_all add: index_in_range)

lemma np_dot_zeros_right:
  assumes "shape M = [r, p]" and "length ts \<le> 1"
  shows "np_dot M (np_zeros (p # ts)) = retM (np_zeros (r # ts))"
proof -
  have "tabulate2 r (prod_list ts)
          (\<lambda>i j. \<Sum>l\<leftarrow>[0..<p]. data M ! (i * p + l) * data (np_zeros (p # ts)) ! (l * prod_list ts + j))
        = tabulate2 r (prod_list ts) (\<lambda>i j. 0)"
  proof (rule tabulate2_cong)
    fix i j assume "i < r" and j: "j < prod_list ts"
    have "(\<Sum>l\<leftarrow>[0..<p]. data M ! (i * p + l) * data (np_zeros (p # ts)) ! (l * prod_list ts + j))
          = (\<Sum>l\<leftarrow>[0..<p]. 0)"
      by (rule sum_list_upt_cong) (simp add: index_in_range j)
    then show "(\<Sum>l\<leftarrow>[0..<p]. data M ! (i * p + l) * data (np_zeros (p # ts)) ! (l * prod_list ts + j)) = 0"
      by simp
  qed
  then show ?thesis
    using np_dot_mat [OF assms(1), of "np_zeros (p # ts)" ts] assms(2)
    by (simp add: tabulate2_const np_zeros_def)
qed

section \<open>The Schur-complement recipe of PartitionedPosDefSolver\<close>

lemma PartitionedPosDefSolver_init_fields:
  assumes "fst (PartitionedPosDefSolver_init be A B False) = Inr S"
  shows "PPD_inverse S = None"
    and "fst (pd_solver_solve be (PPD_A_solver S) (as_array B)) = Inr (PPD_AiB S)"
    and "\<exists>BtAiB. fst (np_dot (np_T (as_array B)) (PPD_AiB S)) = Inr BtAiB
           \<and> fst (DensePosDefSolver_init be BtAiB) = Inr (PPD_BtAiB_solver S)"
    and "fst (PosDefSolver_init be A False) = Inr P \<Longrightarrow> PD_solver P = PPD_A_solver S"
proof -
  let ?mk = "if issparse (as_sparse_or_array A) then
               (if \<not> HAS_CHOLMOD be then
                  bindM (emit (Warning CHOLMOD_MSG)) (\<lambda>_.
                    DensePosDefSolver_init be (toarray (as_sparse_or_array A)))
                else SparsePosDefSolver_init be (toarray (as_sparse_or_array A)))
             else DensePosDefSolver_init be (toarray (as_sparse_or_array A))"
  from assms obtain np As AiB BtAiB Ss where
    f: "fst ?mk = Inr As"
       "fst (pd_solver_solve be As (as_array B)) = Inr AiB"
       "fst (np_dot (np_T (as_array B)) AiB) = Inr BtAiB"
       "fst (DensePosDefSolver_init be BtAiB) = Inr Ss"
       "S = \<lparr>PPD_A_solver = As, PPD_AiB = AiB, PPD_BtAiB_solver = Ss, PPD_inverse = None,
             PPD_n = fst np, PPD_p = snd np\<rparr>"
    unfolding PartitionedPosDefSolver_init_def Let_def
    by (auto dest!: bindM_Inr split: prod.splits if_splits)
  show "PPD_inverse S = None" using f by simp
  show "fst (pd_solver_solve be (PPD_A_solver S) (as_array B)) = Inr (PPD_AiB S)" using f by simp
  show "\<exists>BtAiB. fst (np_dot (np_T (as_array B)) (PPD_AiB S)) = Inr BtAiB
           \<and> fst (DensePosDefSolver_init be BtAiB) = Inr (PPD_BtAiB_solver S)"
    using f by auto
  show "PD_solver P = PPD_A_solver S" if "fst (PosDefSolver_init be A False) = Inr P"
  proof -
    from that obtain solver where "fst ?mk = Inr solver" "PD_solver P = solver"
      unfolding PosDefSolver_init_def Let_def
      by (auto dest!: bindM_Inr)
    with f show ?thesis by simp
  qed
qed

lemma PartitionedPosDefSolver_solve_recipe:
  assumes "PPD_inverse S = None"
  shows "PartitionedPosDefSolver_solve be S a b
         = schur_recipe (pd_solver_solve be (PPD_A_solver S))
             (pd_solver_solve be (PPD_BtAiB_solver S)) (PPD_AiB S)
             (as_array a) (map_option as_array b)"
  using assms
  by (cases b) (simp_all add: PartitionedPosDefSolver_solve_def schur_recipe_def Let_def)



section \<open>The cached inverse against the cached factorization\<close>

lemma solves_exactlyD:
  assumes "solves_exactly res A c"
  obtains x where "fst res = Inr x" "shape x = shape c" "wf_array x" "np_dot A x = retM c"
  using assms by (auto simp: solves_exactly_def fst_np_dot_Inr split: sum.splits)

lemma inverse_product_is_solve:
  assumes A: "shape A = [n, n]"
    and Ai: "shape Ai = [n, n]" "fst (np_dot Ai A) = Inr (np_eye n)"
    and b: "shape b = n # ts" "length ts \<le> 1" "wf_array b"
    and eI: "solves_exactly (slv (np_eye n)) A (np_eye n)"
    and eb: "solves_exactly (slv b) A b"
    and X: "fst (slv (np_eye n)) = Inr X"
  shows "fst (np_dot X b) = fst (slv b)"
proof -
  from eI X have sX: "shape X = [n, n]" and AX: "np_dot A X = retM (np_eye n)"
    by (auto elim!: solves_exactlyD simp: np_eye_def)
  from eb obtain x where x: "fst (slv b) = Inr x" "shape x = n # ts" "wf_array x"
      "np_dot A x = retM b"
    using b(1) by (auto elim!: solves_exactlyD)
  let ?Xb = "\<lparr>shape = n # ts,
              data = tabulate2 n (prod_list ts)
                (\<lambda>i j. \<Sum>l\<leftarrow>[0..<n]. data X ! (i * n + l) * data b ! (l * prod_list ts + j))\<rparr>"
  have Xb: "np_dot X b = retM ?Xb"
    using np_dot_mat [OF sX b(1,2)] .
  have wXb: "wf_array ?Xb" "shape ?Xb = n # ts"
    by (simp_all add: wf_array_def)
  have "np_dot A ?Xb = np_dot (np_eye n) b"
    using np_dot_assoc [OF A sX b(1,2)] AX Xb by simp
  then have AXb: "np_dot A ?Xb = retM b"
    using np_dot_eye_left [OF b] by simp
  have AiA: "np_dot Ai A = retM (np_eye n)"
    using Ai(2) by (rule fst_np_dot_Inr)
  have "np_dot (np_eye n) ?Xb = np_dot Ai b"
    using np_dot_assoc [OF Ai(1) A wXb(2) b(2)] AiA AXb by simp
  moreover have "np_dot (np_eye n) x = np_dot Ai b"
    using np_dot_assoc [OF Ai(1) A x(2) b(2)] AiA x(4) by simp
  ultimately have "retM ?Xb = retM x"
    using np_dot_eye_left [OF wXb(2) b(2) wXb(1)] np_dot_eye_left [OF x(2) b(2) x(3)] by simp
  then have "?Xb = x" by (simp add: retM_def)
  with Xb x(1) show ?thesis by simp
qed


lemma Solver_init_fields:
  assumes "fst (Solver_init be A True) = Inr S1" and "fst (Solver_init be A False) = Inr S2"
    and "shape (toarray A) = n # ns"
  shows "S_inverse S2 = None"
    and "\<exists>X. S_inverse S1 = Some X \<and> fst (lu_solver_solve be (S_solver S2) (np_eye n)) = Inr X"
proof -
  let ?mk = "if issparse (as_sparse_or_array A)
             then SparseSolver_init be (toarray (as_sparse_or_array A))
             else DenseSolver_init be (toarray (as_sparse_or_array A))"
  have t: "toarray (as_sparse_or_array A) = toarray A"
    by (cases A) simp_all
  from assms(2) obtain s2 where 2: "fst ?mk = Inr s2" "S_solver S2 = s2" "S_inverse S2 = None"
    unfolding Solver_init_def Let_def by (auto dest!: bindM_Inr)
  from assms(1) obtain s1 X where 1: "fst ?mk = Inr s1"
      "fst (lu_solver_solve be s1 (np_eye n)) = Inr X" "S_inverse S1 = Some X"
    unfolding Solver_init_def Let_def using assms(3)
    by (auto dest!: bindM_Inr simp: t shape0_def)
  show "S_inverse S2 = None" by (rule 2)
  show "\<exists>X. S_inverse S1 = Some X \<and> fst (lu_solver_solve be (S_solver S2) (np_eye n)) = Inr X"
    using 1 2 by auto
qed

lemma PosDefSolver_init_fields:
  assumes "fst (PosDefSolver_init be A True) = Inr S1" and "fst (PosDefSolver_init be A False) = Inr S2"
    and "shape (toarray A) = n # ns"
  shows "PD_inverse S2 = None"
    and "\<exists>X. PD_inverse S1 = Some X \<and> fst (pd_solver_solve be (PD_solver S2) (np_eye n)) = Inr X"
proof -
  let ?mk = "if issparse (as_sparse_or_array A) then
               (if \<not> HAS_CHOLMOD be then
                  bindM (emit (Warning CHOLMOD_MSG)) (\<lambda>_.
                    DensePosDefSolver_init be (toarray (as_sparse_or_array A)))
                else SparsePosDefSolver_init be (toarray (as_sparse_or_array A)))
             else DensePosDefSolver_init be (toarray (as_sparse_or_array A))"
  have t: "toarray (as_sparse_or_array A) = toarray A"
    by (cases A) simp_all
  from assms(2) obtain s2 where 2: "fst ?mk = Inr s2" "PD_solver S2 = s2" "PD_inverse S2 = None"
    unfolding PosDefSolver_init_def Let_def by (auto dest!: bindM_Inr)
  from assms(1) obtain s1 X where 1: "fst ?mk = Inr s1"
      "fst (pd_solver_solve be s1 (np_eye n)) = Inr X" "PD_inverse S1 = Some X"
    unfolding PosDefSolver_init_def Let_def using assms(3)
    by (auto dest!: bindM_Inr simp: t shape0_def)
  show "PD_inverse S2 = None" by (rule 2)
  show "\<exists>X. PD_inverse S1 = Some X \<and> fst (pd_solver_solve be (PD_solver S2) (np_eye n)) = Inr X"
    using 1 2 by auto
qed

lemma Solver_build_inverse_agrees:
  assumes "shape (toarray A) = [n, n]"
    and "shape Ai = [n, n]" and "fst (np_dot Ai (toarray A)) = Inr (np_eye n)"
    and "shape (as_array b) = n # ts" and "length ts \<le> 1" and "wf_array (as_array b)"
    and "fst (Solver_init be A True) = Inr S1" and "fst (Solver_init be A False) = Inr S2"
    and "solves_exactly (lu_solver_solve be (S_solver S2) (np_eye n)) (toarray A) (np_eye n)"
    and "solves_exactly (lu_solver_solve be (S_solver S2) (as_array b)) (toarray A) (as_array b)"
  shows "fst (Solver_solve be S1 b) = fst (Solver_solve be S2 b)"
proof -
  from Solver_init_fields [OF assms(7,8,1)] obtain X where
    X: "S_inverse S2 = None" "S_inverse S1 = Some X"
       "fst (lu_solver_solve be (S_solver S2) (np_eye n)) = Inr X"
    by auto
  show ?thesis
    using inverse_product_is_solve [of "toarray A" n Ai "as_array b" ts
        "lu_solver_solve be (S_solver S2)" X, OF assms(1,2,3,4,5,6,9,10) X(3)] X(1,2)
    by (simp add: Solver_solve_def)
qed

lemma PosDefSolver_build_inverse_agrees:
  assumes "shape (toarray A) = [n, n]"
    and "shape Ai = [n, n]" and "fst (np_dot Ai (toarray A)) = Inr (np_eye n)"
    and "shape (as_array b) = n # ts" and "length ts \<le> 1" and "wf_array (as_array b)"
    and "fst (PosDefSolver_init be A True) = Inr S1" and "fst (PosDefSolver_init be A False) = Inr S2"
    and "solves_exactly (pd_solver_solve be (PD_solver S2) (np_eye n)) (toarray A) (np_eye n)"
    and "solves_exactly (pd_solver_solve be (PD_solver S2) (as_array b)) (toarray A) (as_array b)"
  shows "fst (PosDefSolver_solve be S1 b) = fst (PosDefSolver_solve be S2 b)"
proof -
  from PosDefSolver_init_fields [OF assms(7,8,1)] obtain X where
    X: "PD_inverse S2 = None" "PD_inverse S1 = Some X"
       "fst (pd_solver_solve be (PD_solver S2) (np_eye n)) = Inr X"
    by auto
  show ?thesis
    using inverse_product_is_solve [of "toarray A" n Ai "as_array b" ts
        "pd_solver_solve be (PD_solver S2)" X, OF assms(1,2,3,4,5,6,9,10) X(3)] X(1,2)
    by (simp add: PosDefSolver_solve_def)
qed

text \<open>
  Claim C2.  Let \<open>A\<close> be an invertible \<open>n\<close> by \<open>n\<close> matrix (it has a left inverse \<open>Ai\<close>)
  and \<open>b\<close> a vector or a matrix with \<open>n\<close> rows.  Over exact arithmetic, that is when
  solving with the factorization of \<open>A\<close> returns exact solutions for the identity and for
  \<open>b\<close>, the solver built with \<^verbatim>\<open>build_inverse=True\<close> and the solver built with
  \<^verbatim>\<open>build_inverse=False\<close> return the same solution of \<open>A x = b\<close>; for \<^verbatim>\<open>Solver\<close> and
  for \<^verbatim>\<open>PosDefSolver\<close>, for dense and for sparse \<open>A\<close>.
\<close>

theorem build_inverse_agrees_with_factorization:
  assumes "shape (toarray A) = [n, n]"
    and "shape Ai = [n, n]" and "fst (np_dot Ai (toarray A)) = Inr (np_eye n)"
    and "shape (as_array b) = n # ts" and "length ts \<le> 1" and "wf_array (as_array b)"
  shows "(fst (Solver_init be A True) = Inr S1 \<and> fst (Solver_init be A False) = Inr S2
          \<and> solves_exactly (lu_solver_solve be (S_solver S2) (np_eye n)) (toarray A) (np_eye n)
          \<and> solves_exactly (lu_solver_solve be (S_solver S2) (as_array b)) (toarray A) (as_array b)
          \<longrightarrow> fst (Solver_solve be S1 b) = fst (Solver_solve be S2 b)
              \<and> solves_exactly (Solver_solve be S1 b) (toarray A) (as_array b))
       \<and> (fst (PosDefSolver_init be A True) = Inr P1 \<and> fst (PosDefSolver_init be A False) = Inr P2
          \<and> solves_exactly (pd_solver_solve be (PD_solver P2) (np_eye n)) (toarray A) (np_eye n)
          \<and> solves_exactly (pd_solver_solve be (PD_solver P2) (as_array b)) (toarray A) (as_array b)
          \<longrightarrow> fst (PosDefSolver_solve be P1 b) = fst (PosDefSolver_solve be P2 b)
              \<and> solves_exactly (PosDefSolver_solve be P1 b) (toarray A) (as_array b))"
proof (intro conjI impI)
  assume h: "fst (Solver_init be A True) = Inr S1 \<and> fst (Solver_init be A False) = Inr S2
          \<and> solves_exactly (lu_solver_solve be (S_solver S2) (np_eye n)) (toarray A) (np_eye n)
          \<and> solves_exactly (lu_solver_solve be (S_solver S2) (as_array b)) (toarray A) (as_array b)"
  then show e: "fst (Solver_solve be S1 b) = fst (Solver_solve be S2 b)"
    using Solver_build_inverse_agrees [OF assms, of be S1 S2] by blast
  have "S_inverse S2 = None"
    using h Solver_init_fields(1) [OF _ _ assms(1), of be S1 S2] by blast
  then have "Solver_solve be S2 b = lu_solver_solve be (S_solver S2) (as_array b)"
    by (simp add: Solver_solve_def)
  with h e show "solves_exactly (Solver_solve be S1 b) (toarray A) (as_array b)"
    by (simp add: solves_exactly_def)
next
  assume h: "fst (PosDefSolver_init be A True) = Inr P1 \<and> fst (PosDefSolver_init be A False) = Inr P2
          \<and> solves_exactly (pd_solver_solve be (PD_solver P2) (np_eye n)) (toarray A) (np_eye n)
          \<and> solves_exactly (pd_solver_solve be (PD_solver P2) (as_array b)) (toarray A) (as_array b)"
  then show e: "fst (PosDefSolver_solve be P1 b) = fst (PosDefSolver_solve be P2 b)"
    using PosDefSolver_build_inverse_agrees [OF assms, of be P1 P2] by blast
  have "PD_inverse P2 = None"
    using h PosDefSolver_init_fields(1) [OF _ _ assms(1), of be P1 P2] by blast
  then have "PosDefSolver_solve be P2 b = pd_solver_solve be (PD_solver P2) (as_array b)"
    by (simp add: PosDefSolver_solve_def)
  with h e show "solves_exactly (PosDefSolver_solve be P1 b) (toarray A) (as_array b)"
    by (simp add: solves_exactly_def)
qed

theorem build_inverse_agrees_with_factorization_witness:
  "shape (toarray (Dense (mat 2 2 [4, 0, 0, 1]))) = [2, 2]
   \<and> fst (np_dot (mat 2 2 [1 / 4, 0, 0, 1]) (toarray (Dense (mat 2 2 [4, 0, 0, 1])))) = Inr (np_eye 2)
   \<and> fst (Solver_init (diag_backend True) (Dense (mat 2 2 [4, 0, 0, 1])) True)
       = Inr \<lparr>S_solver = DenseSolver (mat 2 2 [4, 0, 0, 1]) [0, 1],
              S_inverse = Some (mat 2 2 [1 / 4, 0, 0, 1]), S_n = 2\<rparr>
   \<and> fst (Solver_solve (diag_backend True)
          \<lparr>S_solver = DenseSolver (mat 2 2 [4, 0, 0, 1]) [0, 1],
           S_inverse = Some (mat 2 2 [1 / 4, 0, 0, 1]), S_n = 2\<rparr> (Dense (vec [4, 3])))
       = Inr (vec [1, 3])
   \<and> fst (Solver_solve (diag_backend True)
          \<lparr>S_solver = DenseSolver (mat 2 2 [4, 0, 0, 1]) [0, 1], S_inverse = None, S_n = 2\<rparr>
          (Dense (vec [4, 3])))
       = Inr (vec [1, 3])
   \<and> fst (PosDefSolver_solve (diag_backend True)
          \<lparr>PD_solver = DensePosDefSolver (mat 2 2 [2, 0, 0, 1]),
           PD_inverse = Some (mat 2 2 [1 / 4, 0, 0, 1]), PD_n = 2\<rparr> (Dense (vec [4, 3])))
       = Inr (vec [1, 3])
   \<and> fst (PosDefSolver_solve (diag_backend True)
          \<lparr>PD_solver = DensePosDefSolver (mat 2 2 [2, 0, 0, 1]), PD_inverse = None, PD_n = 2\<rparr>
          (Dense (vec [4, 3])))
       = Inr (vec [1, 3])"
proof -
  let ?be = "diag_backend True"
  let ?A = "Dense (mat 2 2 [4, 0, 0, 1])"
  let ?b = "Dense (vec [4, 3])"
  let ?S1 = "\<lparr>S_solver = DenseSolver (mat 2 2 [4, 0, 0, 1]) [0, 1],
              S_inverse = Some (mat 2 2 [1 / 4, 0, 0, 1]), S_n = 2\<rparr>"
  let ?S2 = "\<lparr>S_solver = DenseSolver (mat 2 2 [4, 0, 0, 1]) [0, 1], S_inverse = None, S_n = 2\<rparr>"
  let ?P1 = "\<lparr>PD_solver = DensePosDefSolver (mat 2 2 [2, 0, 0, 1]),
              PD_inverse = Some (mat 2 2 [1 / 4, 0, 0, 1]), PD_n = 2\<rparr>"
  let ?P2 = "\<lparr>PD_solver = DensePosDefSolver (mat 2 2 [2, 0, 0, 1]), PD_inverse = None, PD_n = 2\<rparr>"
  have h1: "shape (toarray ?A) = [2, 2]" by (simp add: array_defs)
  have h2: "shape (mat 2 2 [1 / 4, 0, 0, 1]) = [2, 2]" by (simp add: array_defs)
  have h3: "fst (np_dot (mat 2 2 [1 / 4, 0, 0, 1]) (toarray ?A)) = Inr (np_eye 2)"
    by (simp add: eval_defs eval_nat_numeral)
  have h4: "shape (as_array ?b) = 2 # []" by (simp add: array_defs)
  have h5: "length ([] :: nat list) \<le> 1" by simp
  have h6: "wf_array (as_array ?b)" by (simp add: array_defs)
  have i1: "fst (Solver_init ?be ?A True) = Inr ?S1" by (simp add: eval_defs eval_nat_numeral)
  have i2: "fst (Solver_init ?be ?A False) = Inr ?S2" by (simp add: eval_defs eval_nat_numeral)
  have j1: "fst (PosDefSolver_init ?be ?A True) = Inr ?P1" by (simp add: eval_defs eval_nat_numeral)
  have j2: "fst (PosDefSolver_init ?be ?A False) = Inr ?P2" by (simp add: eval_defs eval_nat_numeral)
  have e1: "solves_exactly (lu_solver_solve ?be (S_solver ?S2) (np_eye 2)) (toarray ?A) (np_eye 2)"
    by (simp add: solves_exactly_def eval_defs eval_nat_numeral)
  have e2: "solves_exactly (lu_solver_solve ?be (S_solver ?S2) (as_array ?b)) (toarray ?A) (as_array ?b)"
    by (simp add: solves_exactly_def eval_defs eval_nat_numeral)
  have f1: "solves_exactly (pd_solver_solve ?be (PD_solver ?P2) (np_eye 2)) (toarray ?A) (np_eye 2)"
    by (simp add: solves_exactly_def eval_defs eval_nat_numeral)
  have f2: "solves_exactly (pd_solver_solve ?be (PD_solver ?P2) (as_array ?b)) (toarray ?A) (as_array ?b)"
    by (simp add: solves_exactly_def eval_defs eval_nat_numeral)
  have v1: "fst (Solver_solve ?be ?S2 ?b) = Inr (vec [1, 3])"
    by (simp add: eval_defs eval_nat_numeral)
  have v2: "fst (PosDefSolver_solve ?be ?P2 ?b) = Inr (vec [1, 3])"
    by (simp add: eval_defs eval_nat_numeral)
  note T = build_inverse_agrees_with_factorization [OF h1 h2 h3 h4 h5 h6,
      where be = ?be and ?S1.0 = ?S1 and ?S2.0 = ?S2 and ?P1.0 = ?P1 and ?P2.0 = ?P2]
  have a: "fst (Solver_solve ?be ?S1 ?b) = fst (Solver_solve ?be ?S2 ?b)"
    using T [THEN conjunct1] i1 i2 e1 e2 by blast
  have b: "fst (PosDefSolver_solve ?be ?P1 ?b) = fst (PosDefSolver_solve ?be ?P2 ?b)"
    using T [THEN conjunct2] j1 j2 f1 f2 by blast
  show ?thesis
    using h1 h3 i1 a b v1 v2 by simp
qed

section \<open>The shape check of the partitioned solvers\<close>

text \<open>
  Claim C3.  For an off-diagonal block \<open>B\<close> of shape \<open>(n, p)\<close>, the constructors of
  \<^verbatim>\<open>PartitionedSolver\<close> and \<^verbatim>\<open>PartitionedPosDefSolver\<close> end with the
  \<^verbatim>\<open>LinAlgError\<close> about fewer rows than columns exactly when \<open>n < p\<close>; in that case
  they have performed no effect at all, so no factorization was attempted.  When
  \<open>n \<ge> p\<close> the constructors go on and never end with that exception.
\<close>

theorem partitioned_init_shape_check:
  assumes "shape (as_array B) = [n, p]"
  shows "(fst (PartitionedSolver_init be A B bi) = Inl (LinAlgError msg_fewer_rows) \<longleftrightarrow> n < p)
       \<and> (fst (PartitionedPosDefSolver_init be A B bi) = Inl (LinAlgError msg_fewer_rows) \<longleftrightarrow> n < p)
       \<and> (n < p \<longrightarrow> snd (PartitionedSolver_init be A B bi) = []
                   \<and> snd (PartitionedPosDefSolver_init be A B bi) = [])"
proof -
  have a: "n < p \<Longrightarrow> PartitionedSolver_init be A B bi = raiseM (LinAlgError msg_fewer_rows)"
    using assms by (simp add: PartitionedSolver_init_def Let_def unpack2_def)
  have b: "n < p \<Longrightarrow> PartitionedPosDefSolver_init be A B bi = raiseM (LinAlgError msg_fewer_rows)"
    using assms by (simp add: PartitionedPosDefSolver_init_def Let_def unpack2_def)
  show ?thesis
    using a b PartitionedSolver_init_proceeds [OF assms, of be A bi]
      PartitionedPosDefSolver_init_proceeds [OF assms, of be A bi]
    by (auto simp: avoids_def)
qed

theorem partitioned_init_shape_check_witness:
  "shape (as_array (Dense (mat 1 2 [1, 1]))) = [1, 2]
   \<and> PartitionedSolver_init (diag_backend True) (Dense (mat 1 1 [4])) (Dense (mat 1 2 [1, 1])) False
       = (Inl (LinAlgError msg_fewer_rows), [])
   \<and> PartitionedPosDefSolver_init (diag_backend True) (Dense (mat 1 1 [4])) (Dense (mat 1 2 [1, 1])) False
       = (Inl (LinAlgError msg_fewer_rows), [])
   \<and> shape (as_array (Dense (mat 2 1 [1, 1]))) = [2, 1]
   \<and> fst (PartitionedSolver_init (diag_backend True) (Dense (mat 2 2 [4, 0, 0, 4])) (Dense (mat 2 1 [1, 1])) False)
       \<noteq> Inl (LinAlgError msg_fewer_rows)"
proof -
  have s1: "shape (as_array (Dense (mat 1 2 [1, 1]))) = [1, 2]"
    by (simp add: array_defs)
  have s2: "shape (as_array (Dense (mat 2 1 [1, 1]))) = [2, 1]"
    by (simp add: array_defs)
  show ?thesis
    using partitioned_init_shape_check [OF s1, of "diag_backend True" "Dense (mat 1 1 [4])" False]
      partitioned_init_shape_check [OF s2, of "diag_backend True" "Dense (mat 2 2 [4, 0, 0, 4])" False]
      s1 s2
    by (simp add: prod_eq_iff)
qed

section \<open>What the GMRES solver returns\<close>

text \<open>
  Claim C4 says that \<^verbatim>\<open>GMRESSolver.solve\<close> returns the status code of the iteration
  alongside the solution.  It does not: the value returned for a run that did not converge
  (\<open>info = 1\<close>) is the value returned for a run that converged (\<open>info = 0\<close>).
\<close>

theorem gmres_info_not_returned:
  "gmres (diag_backend True) (mat 2 2 [1, 0, 0, 1]) (vec [2, 3]) (1 / 10 ^ 10)
       (diag_superlu (mat 2 2 [1, 0, 0, 1])) = Inr (vec [2, 3], 0)
   \<and> gmres nonconverging_backend (mat 2 2 [1, 0, 0, 1]) (vec [2, 3]) (1 / 10 ^ 10)
       (diag_superlu (mat 2 2 [1, 0, 0, 1])) = Inr (vec [2, 3], 1)
   \<and> fst (GMRESSolver_solve (diag_backend True) [mat 2 2 [1, 0, 0, 1]]
        \<lparr>G_A = 0, G_M = diag_superlu (mat 2 2 [1, 0, 0, 1]), G_n = vec [1, 1]\<rparr>
        (vec [2, 3]) (1 / 10 ^ 10))
     = fst (GMRESSolver_solve nonconverging_backend [mat 2 2 [1, 0, 0, 1]]
        \<lparr>G_A = 0, G_M = diag_superlu (mat 2 2 [1, 0, 0, 1]), G_n = vec [1, 1]\<rparr>
        (vec [2, 3]) (1 / 10 ^ 10))"
  by (simp add: eval_defs GMRESSolver_solve_def nonconverging_backend_def eval_nat_numeral)

text \<open>
  Claim C4 as amended.  Whenever the right-hand side can be divided by the row norms and
  \<^verbatim>\<open>gmres\<close> returns a pair \<open>(x, info)\<close>, whatever \<open>info\<close> is, \<^verbatim>\<open>GMRESSolver.solve\<close> raises
  nothing and returns \<open>x\<close> alone; \<open>info\<close> is written to the debug log only.
\<close>

theorem gmres_solve_returns_solution_only:
  assumes "fst (np_div b (G_n self)) = Inr bn"
    and "gmres be (h ! G_A self) bn tol (G_M self) = Inr (x, info)"
  shows "GMRESSolver_solve be h self b tol
         = (Inr x, [Debug ''solving the system with GMRES'', Backend Gmres,
                    DebugInfo ''finished GMRES with info'' info])"
proof -
  have "np_div b (G_n self) = (Inr bn, [])"
    using assms(1) by (simp add: prod_eq_iff np_div_def)
  then show ?thesis
    using assms(2)
    by (simp add: GMRESSolver_solve_def bindM_def emit_def extcall_def retM_def)
qed

theorem gmres_solve_returns_solution_only_witness:
  "GMRESSolver_solve nonconverging_backend [mat 2 2 [1, 0, 0, 1]]
        \<lparr>G_A = 0, G_M = diag_superlu (mat 2 2 [1, 0, 0, 1]), G_n = vec [1, 1]\<rparr>
        (vec [2, 3]) (1 / 10 ^ 10)
     = (Inr (vec [2, 3]), [Debug ''solving the system with GMRES'', Backend Gmres,
                    DebugInfo ''finished GMRES with info'' 1])"
proof -
  have a: "fst (np_div (vec [2, 3]) (G_n \<lparr>G_A = 0, G_M = diag_superlu (mat 2 2 [1, 0, 0, 1]), G_n = vec [1, 1]\<rparr>))
           = Inr (vec [2, 3])"
    by (simp add: eval_defs)
  have b: "gmres nonconverging_backend
             ([mat 2 2 [1, 0, 0, 1]] ! G_A \<lparr>G_A = 0, G_M = diag_superlu (mat 2 2 [1, 0, 0, 1]), G_n = vec [1, 1]\<rparr>)
             (vec [2, 3]) (1 / 10 ^ 10)
             (G_M \<lparr>G_A = 0, G_M = diag_superlu (mat 2 2 [1, 0, 0, 1]), G_n = vec [1, 1]\<rparr>)
           = Inr (vec [2, 3], 1)"
    by (simp add: eval_defs nonconverging_backend_def eval_nat_numeral)
  show ?thesis
    using gmres_solve_returns_solution_only [OF a b] by simp
qed

section \<open>The positive-definiteness test\<close>

text \<open>
  Claim C5 says that \<^verbatim>\<open>is_positive_definite\<close> returns \<open>False\<close> when the factorization
  fails, also when CHOLMOD is unavailable.  The code does not: without CHOLMOD the name
  \<^verbatim>\<open>cholmod\<close> in the \<^verbatim>\<open>except\<close> clause is unbound, so for the dense matrix
  \<open>diag(1, -1)\<close> the failed Cholesky factorization ends in a \<^verbatim>\<open>NameError\<close>.  With CHOLMOD
  the same matrix gives \<open>False\<close>, and a positive definite matrix gives \<open>True\<close> either way.
\<close>

theorem is_positive_definite_raises_NameError:
  "is_positive_definite (diag_backend False) (Dense (mat 2 2 [1, 0, 0, - 1]))
     = (Inl (NameError ''cholmod''), [Backend Dpotrf])
   \<and> is_positive_definite (diag_backend True) (Dense (mat 2 2 [1, 0, 0, - 1]))
     = (Inr False, [Backend Dpotrf])
   \<and> is_positive_definite (diag_backend False) (Dense (mat 2 2 [1, 0, 0, 1]))
     = (Inr True, [Backend Dpotrf])"
  by (simp add: eval_defs eval_nat_numeral)

section \<open>The dense fallback when CHOLMOD is unavailable\<close>

lemma PosDefSolver_init_fallback:
  assumes "\<not> HAS_CHOLMOD be"
  shows "PosDefSolver_init be (Sparse A) bi =
         bindM (emit (Warning CHOLMOD_MSG)) (\<lambda>_. PosDefSolver_init be (Dense A) bi)"
  using assms by (cases bi) (simp_all add: PosDefSolver_init_def bindM_assoc)

lemma PartitionedPosDefSolver_init_fallback:
  assumes "\<not> HAS_CHOLMOD be" and "shape (as_array B) = [n, p]" and "p \<le> n"
  shows "PartitionedPosDefSolver_init be (Sparse A) B bi =
         bindM (emit (Warning CHOLMOD_MSG)) (\<lambda>_. PartitionedPosDefSolver_init be (Dense A) B bi)"
  using assms by (cases bi) (simp_all add: PartitionedPosDefSolver_init_def unpack2_def bindM_assoc Let_def)

lemma PosDefSolver_init_dense_solver:
  assumes "fst (PosDefSolver_init be (Dense A) bi) = Inr S"
  shows "\<exists>L. PD_solver S = DensePosDefSolver L"
proof -
  from assms obtain solver where a: "fst (DensePosDefSolver_init be A) = Inr solver"
    and b: "PD_solver S = solver"
    by (auto simp: PosDefSolver_init_def dest!: bindM_Inr)
  from a obtain L where "solver = DensePosDefSolver L"
    by (auto simp: DensePosDefSolver_init_def dest!: bindM_Inr)
  with b show ?thesis by blast
qed

text \<open>
  Claim C6.  When \<^verbatim>\<open>HAS_CHOLMOD\<close> is false, constructing \<^verbatim>\<open>PosDefSolver\<close> or
  \<^verbatim>\<open>PartitionedPosDefSolver\<close> (with a block \<open>B\<close> that passes the shape check) from a
  sparse matrix gives exactly the result of constructing it from the dense matrix: it fails
  only if the dense construction fails, the solver it returns holds a dense Cholesky
  factor, and its trace is the warning \<^verbatim>\<open>CHOLMOD_MSG\<close> followed by the trace of the dense
  construction.  All later \<^verbatim>\<open>solve\<close>, \<^verbatim>\<open>solve_L\<close>, \<^verbatim>\<open>L\<close> and \<^verbatim>\<open>log_det\<close> calls
  are therefore those of the dense solver.
\<close>

theorem cholmod_unavailable_falls_back_to_dense:
  assumes "\<not> HAS_CHOLMOD be" and "shape (as_array B) = [n, p]" and "p \<le> n"
  shows "fst (PosDefSolver_init be (Sparse A) bi) = fst (PosDefSolver_init be (Dense A) bi)
       \<and> snd (PosDefSolver_init be (Sparse A) bi)
           = Warning CHOLMOD_MSG # snd (PosDefSolver_init be (Dense A) bi)
       \<and> fst (PartitionedPosDefSolver_init be (Sparse A) B bi)
           = fst (PartitionedPosDefSolver_init be (Dense A) B bi)
       \<and> snd (PartitionedPosDefSolver_init be (Sparse A) B bi)
           = Warning CHOLMOD_MSG # snd (PartitionedPosDefSolver_init be (Dense A) B bi)
       \<and> (\<forall>S. fst (PosDefSolver_init be (Sparse A) bi) = Inr S
              \<longrightarrow> (\<exists>L. PD_solver S = DensePosDefSolver L))"
  using PosDefSolver_init_fallback [OF assms(1), of A bi]
    PartitionedPosDefSolver_init_fallback [OF assms, of A bi]
    PosDefSolver_init_dense_solver [of be A bi]
  by simp

theorem cholmod_unavailable_falls_back_to_dense_witness:
  "\<not> HAS_CHOLMOD (diag_backend False)
   \<and> shape (as_array (Dense (mat 2 1 [1, 1]))) = [2, 1] \<and> (1::nat) \<le> 2
   \<and> PosDefSolver_init (diag_backend False) (Sparse (mat 2 2 [4, 0, 0, 4])) False
       = (Inr \<lparr>PD_solver = DensePosDefSolver (mat 2 2 [2, 0, 0, 2]), PD_inverse = None, PD_n = 2\<rparr>,
          [Warning CHOLMOD_MSG, Backend Dpotrf])
   \<and> snd (PartitionedPosDefSolver_init (diag_backend False) (Sparse (mat 2 2 [4, 0, 0, 4]))
            (Dense (mat 2 1 [1, 1])) False)
       = [Warning CHOLMOD_MSG, Backend Dpotrf, Backend Dpotrs, Backend Dpotrf]"
proof -
  have h: "\<not> HAS_CHOLMOD (diag_backend False)"
    by (simp add: diag_backend_def)
  have s: "shape (as_array (Dense (mat 2 1 [1, 1]))) = [2, 1]"
    by (simp add: array_defs)
  have d1: "PosDefSolver_init (diag_backend False) (Dense (mat 2 2 [4, 0, 0, 4])) False
       = (Inr \<lparr>PD_solver = DensePosDefSolver (mat 2 2 [2, 0, 0, 2]), PD_inverse = None, PD_n = 2\<rparr>,
          [Backend Dpotrf])"
    by (simp add: eval_defs eval_nat_numeral)
  have d2: "snd (PartitionedPosDefSolver_init (diag_backend False) (Dense (mat 2 2 [4, 0, 0, 4]))
            (Dense (mat 2 1 [1, 1])) False) = [Backend Dpotrf, Backend Dpotrs, Backend Dpotrf]"
    by (simp add: eval_defs eval_nat_numeral)
  show ?thesis
    using cholmod_unavailable_falls_back_to_dense [OF h s, of "mat 2 2 [4, 0, 0, 4]" False] h s d1 d2
    by (simp add: prod_eq_iff)
qed

section \<open>The right-hand sides of PartitionedSolver\<close>

text \<open>
  Claim C7 says that \<^verbatim>\<open>solve(a)\<close> returns what \<^verbatim>\<open>solve(a, b)\<close> returns for \<open>b\<close> the zero
  array of shape \<^verbatim>\<open>(p,) + a.shape[1:]\<close>, for every right-hand side \<open>a\<close> and on both paths.
  With the cached inverse it does not when \<open>a\<close> has three dimensions: for \<open>n = 2\<close>, \<open>p = 1\<close>
  and \<open>a\<close> of shape \<open>(2, 2, 1)\<close>, \<^verbatim>\<open>solve(a)\<close> returns a pair, while \<^verbatim>\<open>solve(a, b)\<close> with
  \<open>b\<close> the zero array of shape \<open>(1, 2, 1)\<close> raises \<^verbatim>\<open>ValueError\<close>, because \<^verbatim>\<open>dot\<close> contracts
  the last axis of \<^verbatim>\<open>inverse[:, n:]\<close> with the second-to-last axis of \<open>b\<close>.
\<close>

theorem partitioned_solve_default_b_fails_for_3d:
  "fst (PartitionedSolver_init (inverse_backend (mat 3 3 [0, 0, 1, 0, 1, 0, 1, 0, - 1]))
          (Dense (mat 2 2 [1, 0, 0, 1])) (Dense (mat 2 1 [1, 0])) True)
     = Inr \<lparr>PS_solver = DenseSolver (mat 3 3 [1, 0, 1, 0, 1, 0, 1, 0, 0]) [0, 1, 2],
            PS_inverse = Some (mat 3 3 [0, 0, 1, 0, 1, 0, 1, 0, - 1]), PS_n = 2, PS_p = 1\<rparr>
   \<and> fst (PartitionedSolver_solve (inverse_backend (mat 3 3 [0, 0, 1, 0, 1, 0, 1, 0, - 1]))
        \<lparr>PS_solver = DenseSolver (mat 3 3 [1, 0, 1, 0, 1, 0, 1, 0, 0]) [0, 1, 2],
         PS_inverse = Some (mat 3 3 [0, 0, 1, 0, 1, 0, 1, 0, - 1]), PS_n = 2, PS_p = 1\<rparr>
        (Dense \<lparr>shape = [2, 2, 1], data = [1, 2, 3, 4]\<rparr>) None)
     = Inr (\<lparr>shape = [2, 2, 1], data = [0, 0, 2, 4]\<rparr>, \<lparr>shape = [1, 2, 1], data = [1, 3]\<rparr>)
   \<and> np_zeros (1 # tl (shape \<lparr>shape = [2, 2, 1], data = [1, 2, 3, 4]\<rparr>))
     = \<lparr>shape = [1, 2, 1], data = [0, 0]\<rparr>
   \<and> fst (PartitionedSolver_solve (inverse_backend (mat 3 3 [0, 0, 1, 0, 1, 0, 1, 0, - 1]))
        \<lparr>PS_solver = DenseSolver (mat 3 3 [1, 0, 1, 0, 1, 0, 1, 0, 0]) [0, 1, 2],
         PS_inverse = Some (mat 3 3 [0, 0, 1, 0, 1, 0, 1, 0, - 1]), PS_n = 2, PS_p = 1\<rparr>
        (Dense \<lparr>shape = [2, 2, 1], data = [1, 2, 3, 4]\<rparr>)
        (Some (Dense \<lparr>shape = [1, 2, 1], data = [0, 0]\<rparr>)))
     = Inl (ValueError ''shapes not aligned'')"
  by (simp add: eval_defs inverse_backend_def eval_nat_numeral)

lemma np_iadd_zeros:
  assumes "wf_array xy"
  shows "np_iadd xy (np_zeros (shape xy)) = retM xy"
proof -
  have "map2 (\<lambda>x y. x + y) (data xy) (replicate (length (data xy)) 0) = data xy"
    by (rule nth_equalityI) simp_all
  then show ?thesis
    using assms by (cases xy) (simp add: np_iadd_def np_add_def elementwise_def wf_array_def)
qed

lemma np_dot_not_aligned:
  assumes "shape M = [r, m]" and "length (shape a) = 1 \<or> length (shape a) = 2"
    and "hd (shape a) \<noteq> m"
  shows "np_dot M a = raiseM (ValueError ''shapes not aligned'')"
proof -
  from assms(2) consider k where "shape a = [k]" | k t where "shape a = [k, t]"
    by (cases "shape a"; cases "tl (shape a)"; cases "tl (tl (shape a))") auto
  then show ?thesis
    using assms(1,3) by cases (simp_all add: np_dot_def Let_def)
qed

lemma shape_tl_cases:
  assumes "length (shape a) = 1 \<or> length (shape a) = 2"
  shows "shape a = hd (shape a) # tl (shape a) \<and> length (tl (shape a)) \<le> 1"
  using assms by (cases "shape a") auto

lemma PartitionedSolver_xy_inverse_default_b:
  assumes "length (shape (as_array a)) = 1 \<or> length (shape (as_array a)) = 2"
    and "PS_inverse S = Some iv" and "shape iv = [PS_n S + PS_p S, PS_n S + PS_p S]"
  shows "PartitionedSolver_xy be S a None
       = PartitionedSolver_xy be S a (Some (Dense (np_zeros (PS_p S # tl (shape (as_array a))))))"
proof -
  let ?n = "PS_n S" and ?p = "PS_p S" and ?ts = "tl (shape (as_array a))"
  let ?left = "\<lparr>shape = [?n + ?p, ?n],
       data = concat (map (\<lambda>i. take (?n * 1) (drop (i * (?n + ?p) * 1) (data iv))) [0..<?n + ?p])\<rparr>"
  let ?right = "\<lparr>shape = [?n + ?p, ?p],
       data = concat (map (\<lambda>i. take ((?n + ?p - ?n) * 1) (drop ((i * (?n + ?p) + ?n) * 1) (data iv)))
                      [0..<?n + ?p])\<rparr>"
  have l: "cols_upto ?n iv = retM ?left"
    using assms(3) by (simp add: cols_upto_def min_def)
  have r: "cols_from ?n iv = retM ?right"
    using assms(3) by (simp add: cols_from_def min_def)
  note sh = shape_tl_cases [OF assms(1)]
  show ?thesis
  proof (cases "hd (shape (as_array a)) = ?n")
    case False
    then have "np_dot ?left (as_array a) = raiseM (ValueError ''shapes not aligned'')"
      using np_dot_not_aligned [of ?left "?n + ?p" ?n "as_array a"] assms(1) by simp
    then show ?thesis
      using assms(2) l by (simp add: PartitionedSolver_xy_def)
  next
    case True
    with sh have sa: "shape (as_array a) = ?n # ?ts" and lt: "length ?ts \<le> 1" by simp_all
    let ?xy = "\<lparr>shape = (?n + ?p) # ?ts,
                 data = tabulate2 (?n + ?p) (prod_list ?ts)
                   (\<lambda>i j. \<Sum>l\<leftarrow>[0..<?n]. data ?left ! (i * ?n + l)
                            * data (as_array a) ! (l * prod_list ?ts + j))\<rparr>"
    have xy: "np_dot ?left (as_array a) = retM ?xy"
      using np_dot_mat [of ?left "?n + ?p" ?n "as_array a" ?ts] sa lt by simp
    have w: "wf_array ?xy" by (simp add: wf_array_def)
    have z: "np_dot ?right (np_zeros (?p # ?ts)) = retM (np_zeros ((?n + ?p) # ?ts))"
      using np_dot_zeros_right [of ?right "?n + ?p" ?p ?ts] lt by simp
    have "np_iadd ?xy (np_zeros ((?n + ?p) # ?ts)) = retM ?xy"
      using np_iadd_zeros [OF w] by simp
    with xy z l r assms(2) show ?thesis
      by (simp add: PartitionedSolver_xy_def)
  qed
qed

lemma PartitionedSolver_xy_factor_default_b:
  assumes "PS_inverse S = None"
  shows "PartitionedSolver_xy be S a None
       = PartitionedSolver_xy be S a (Some (Dense (np_zeros (PS_p S # tl (shape (as_array a))))))"
  using assms by (simp add: PartitionedSolver_xy_def Let_def)

lemma rows_split:
  assumes "wf_array xy" and "shape xy = (n + p) # ts"
  shows "\<exists>x y. rows_upto n xy = retM x \<and> rows_from n xy = retM y
           \<and> shape x = n # ts \<and> shape y = p # ts \<and> wf_array x \<and> wf_array y
           \<and> data xy = data x @ data y"
proof (intro exI conjI)
  show "rows_upto n xy = retM \<lparr>shape = n # ts, data = take (n * prod_list ts) (data xy)\<rparr>"
    using assms(2) by (simp add: rows_upto_def)
  show "rows_from n xy = retM \<lparr>shape = p # ts, data = drop (n * prod_list ts) (data xy)\<rparr>"
    using assms(2) by (simp add: rows_from_def)
qed (use assms in \<open>simp_all add: wf_array_def add_mult_distrib\<close>)

lemma inverse_columns_product:
  assumes iv: "shape iv = [n + p, n + p]" "wf_array iv"
    and a: "shape a = n # ts" "wf_array a"
    and b: "shape b = p # ts" "wf_array b"
    and ts: "length ts \<le> 1"
  shows "bindM (cols_upto n iv) (\<lambda>left.
         bindM (np_dot left a) (\<lambda>xy.
         bindM (cols_from n iv) (\<lambda>right.
         bindM (np_dot right b) (\<lambda>z.
         np_iadd xy z))))
       = np_dot iv \<lparr>shape = (n + p) # ts, data = data a @ data b\<rparr>"
proof -
  let ?N = "n + p" and ?t = "prod_list ts"
  let ?c = "\<lparr>shape = (n + p) # ts, data = data a @ data b\<rparr>"
  let ?left = "\<lparr>shape = [?N, n], data = tabulate2 ?N n (\<lambda>i l. data iv ! (i * ?N + l))\<rparr>"
  let ?right = "\<lparr>shape = [?N, p], data = tabulate2 ?N p (\<lambda>i l. data iv ! (i * ?N + n + l))\<rparr>"
  have len: "length (data iv) = ?N * ?N" "length (data a) = n * ?t" "length (data b) = p * ?t"
    using iv a b by (simp_all add: wf_array_def)
  have l: "cols_upto n iv = retM ?left"
    using iv(1) concat_take_drop_tabulate2 [OF len(1), where c = 0 and w = n]
    by (simp add: cols_upto_def min_def)
  have r: "cols_from n iv = retM ?right"
    using iv(1) concat_take_drop_tabulate2 [OF len(1), where c = n and w = p]
    by (simp add: cols_from_def min_def)
  let ?xy = "\<lparr>shape = ?N # ts,
               data = tabulate2 ?N ?t (\<lambda>i j. \<Sum>l\<leftarrow>[0..<n]. data ?left ! (i * n + l) * data a ! (l * ?t + j))\<rparr>"
  let ?z = "\<lparr>shape = ?N # ts,
               data = tabulate2 ?N ?t (\<lambda>i j. \<Sum>l\<leftarrow>[0..<p]. data ?right ! (i * p + l) * data b ! (l * ?t + j))\<rparr>"
  have xy: "np_dot ?left a = retM ?xy"
    using np_dot_mat [of ?left ?N n a ts] a(1) ts by simp
  have z: "np_dot ?right b = retM ?z"
    using np_dot_mat [of ?right ?N p b ts] b(1) ts by simp
  have s: "np_iadd ?xy ?z = retM \<lparr>shape = ?N # ts, data = map2 (\<lambda>x y. x + y) (data ?xy) (data ?z)\<rparr>"
    by (simp add: np_iadd_def np_add_def elementwise_def)
  have d: "np_dot iv ?c = retM \<lparr>shape = ?N # ts,
             data = tabulate2 ?N ?t (\<lambda>i j. \<Sum>l\<leftarrow>[0..<?N]. data iv ! (i * ?N + l) * data ?c ! (l * ?t + j))\<rparr>"
    using np_dot_mat [of iv ?N ?N ?c ts] iv(1) ts by simp
  have "tabulate2 ?N ?t (\<lambda>i j. (\<Sum>l\<leftarrow>[0..<n]. data ?left ! (i * n + l) * data a ! (l * ?t + j))
                              + (\<Sum>l\<leftarrow>[0..<p]. data ?right ! (i * p + l) * data b ! (l * ?t + j)))
      = tabulate2 ?N ?t (\<lambda>i j. \<Sum>l\<leftarrow>[0..<?N]. data iv ! (i * ?N + l) * data ?c ! (l * ?t + j))"
  proof (rule tabulate2_cong)
    fix i j assume i: "i < ?N" and j: "j < ?t"
    have 1: "(\<Sum>l\<leftarrow>[0..<n]. data ?left ! (i * n + l) * data a ! (l * ?t + j))
           = (\<Sum>l\<leftarrow>[0..<n]. data iv ! (i * ?N + l) * data ?c ! (l * ?t + j))"
      by (rule sum_list_upt_cong) (simp add: nth_tabulate2 i nth_append len index_in_range j add_mult_distrib add.assoc)
    have 2: "(\<Sum>l\<leftarrow>[0..<p]. data ?right ! (i * p + l) * data b ! (l * ?t + j))
           = (\<Sum>l\<leftarrow>[0..<p]. data iv ! (i * ?N + (n + l)) * data ?c ! ((n + l) * ?t + j))"
      by (rule sum_list_upt_cong) (simp add: nth_tabulate2 i nth_append len index_in_range j add_mult_distrib add.assoc)
    show "(\<Sum>l\<leftarrow>[0..<n]. data ?left ! (i * n + l) * data a ! (l * ?t + j))
            + (\<Sum>l\<leftarrow>[0..<p]. data ?right ! (i * p + l) * data b ! (l * ?t + j))
          = (\<Sum>l\<leftarrow>[0..<?N]. data iv ! (i * ?N + l) * data ?c ! (l * ?t + j))"
      unfolding 1 2 by (rule sum_list_upt_add [symmetric])
  qed
  then have e: "map2 (\<lambda>x y. x + y) (data ?xy) (data ?z)
      = tabulate2 ?N ?t (\<lambda>i j. \<Sum>l\<leftarrow>[0..<?N]. data iv ! (i * ?N + l) * data ?c ! (l * ?t + j))"
    by (simp only: ndarray.simps map2_tabulate2)
  have "bindM (cols_upto n iv) (\<lambda>left.
         bindM (np_dot left a) (\<lambda>xy.
         bindM (cols_from n iv) (\<lambda>right.
         bindM (np_dot right b) (\<lambda>z.
         np_iadd xy z)))) = np_iadd ?xy ?z"
    by (simp only: l r xy z bindM_retM)
  also have "\<dots> = np_dot iv ?c"
    by (simp only: s d e)
  finally show ?thesis .
qed

lemma PartitionedSolver_xy_inverse_given_b:
  assumes "PS_inverse S = Some iv" and "shape iv = [n + p, n + p]" and "wf_array iv"
    and "PS_n S = n"
    and "shape (as_array a) = n # ts" and "wf_array (as_array a)"
    and "shape (as_array b) = p # ts" and "wf_array (as_array b)"
    and "length ts \<le> 1"
  shows "PartitionedSolver_xy be S a (Some b)
         = np_dot iv \<lparr>shape = (n + p) # ts, data = data (as_array a) @ data (as_array b)\<rparr>"
  using inverse_columns_product [OF assms(2,3,5,6,7,8,9)] assms(1,4)
  by (simp add: PartitionedSolver_xy_def Let_def)

lemma np_concatenate0_rows:
  assumes "shape a = n # ts" and "shape b = p # ts"
  shows "np_concatenate0 a b = retM \<lparr>shape = (n + p) # ts, data = data a @ data b\<rparr>"
  using assms by (simp add: np_concatenate0_def)

lemma PartitionedSolver_solve_is_split:
  assumes np: "PS_n S = n" "PS_p S = p"
    and iv: "\<forall>iv. PS_inverse S = Some iv \<longrightarrow> shape iv = [n + p, n + p] \<and> wf_array iv"
    and Cinv: "Cinv = (case PS_inverse S of Some iv \<Rightarrow> np_dot iv
                       | None \<Rightarrow> lu_solver_solve be (PS_solver S))"
    and a: "shape (as_array a) = n # ts" "wf_array (as_array a)"
    and b: "shape (as_array b) = p # ts" "wf_array (as_array b)"
    and ts: "length ts \<le> 1"
  shows "PartitionedSolver_solve be S a (Some b)
         = split_augmented_solution Cinv n p (as_array a) (Some (as_array b))"
proof (cases "PS_inverse S")
  case None
  with np Cinv show ?thesis
    by (simp add: PartitionedSolver_solve_def PartitionedSolver_xy_def
        split_augmented_solution_def bindM_assoc Let_def)
next
  case (Some v)
  with iv have v: "shape v = [n + p, n + p]" "wf_array v" by simp_all
  have "PartitionedSolver_xy be S a (Some b)
        = np_dot v \<lparr>shape = (n + p) # ts, data = data (as_array a) @ data (as_array b)\<rparr>"
    using Some v np(1) a b ts by (rule PartitionedSolver_xy_inverse_given_b)
  then show ?thesis
    using Some np Cinv np_concatenate0_rows [OF a(1) b(1)]
    by (simp add: PartitionedSolver_solve_def split_augmented_solution_def)
qed



section \<open>Empty right-hand sides and empty systems\<close>

text \<open>
  Claim C8 says that an empty solve never reaches the backend, for dense and for sparse
  input.  For sparse input it does: \<^verbatim>\<open>_SparseSolver.solve\<close> passes every right-hand side to
  SuperLU, also one without columns; and a sparse matrix without entries does not even get a
  solver, because the constructor's debug message divides by the number of entries.
\<close>

theorem sparse_empty_solve_invokes_backend:
  "bindM (Solver_init (diag_backend True) (Sparse (mat 2 2 [2, 0, 0, 4])) False)
         (\<lambda>S. Solver_solve (diag_backend True) S (Dense (np_zeros [2, 0])))
     = (Inr (np_zeros [2, 0]),
        [Debug ''Computing the LU decomposition'', Backend Splu, Backend SuperLU_solve])
   \<and> Solver_init (diag_backend True) (Sparse (np_zeros [0, 0])) False = (Inl ZeroDivisionError, [])"
  by (simp add: eval_defs eval_nat_numeral)

lemma Solver_init_dense_shape:
  assumes "fst (Solver_init be (Dense A) False) = Inr S"
  shows "S_inverse S = None \<and> (\<exists>fac piv. S_solver S = DenseSolver fac piv)"
proof -
  from assms obtain solver where a: "fst (DenseSolver_init be A) = Inr solver"
    and b: "S_solver S = solver" "S_inverse S = None"
    by (auto simp: Solver_init_def dest!: bindM_Inr)
  from a obtain fac piv where "solver = DenseSolver fac piv"
    by (auto simp: DenseSolver_init_def dest!: bindM_Inr split: prod.splits)
  with b show ?thesis by blast
qed

lemma PosDefSolver_init_dense_shape:
  assumes "fst (PosDefSolver_init be (Dense A) False) = Inr P"
  shows "PD_inverse P = None \<and> (\<exists>chol. PD_solver P = DensePosDefSolver chol)"
proof -
  from assms obtain solver where a: "fst (DensePosDefSolver_init be A) = Inr solver"
    and b: "PD_solver P = solver" "PD_inverse P = None"
    by (auto simp: PosDefSolver_init_def dest!: bindM_Inr)
  from a obtain chol where "solver = DensePosDefSolver chol"
    by (auto simp: DensePosDefSolver_init_def dest!: bindM_Inr)
  with b show ?thesis by blast
qed

lemma Solver_solve_dense_empty:
  assumes "list_ex (\<lambda>i. i = 0) (shape (as_array b))"
    and "fst (Solver_init be (Dense A) False) = Inr S"
  shows "Solver_solve be S b = (Inr (np_zeros (shape (as_array b))), [])"
  using assms(1) Solver_init_dense_shape [OF assms(2)]
  by (auto simp: Solver_solve_def lu_solver_solve_def solve_lu_def retM_def)

lemma PosDefSolver_solve_dense_empty:
  assumes "list_ex (\<lambda>i. i = 0) (shape (as_array b))"
    and "fst (PosDefSolver_init be (Dense A) False) = Inr P"
  shows "PosDefSolver_solve be P b = (Inr (np_zeros (shape (as_array b))), [])"
  using assms(1) PosDefSolver_init_dense_shape [OF assms(2)]
  by (auto simp: PosDefSolver_solve_def pd_solver_solve_def solve_cholesky_def retM_def)

lemma Solver_init_inverse:
  assumes "fst (Solver_init be A True) = Inr S"
  shows "S_inverse S \<noteq> None"
  using assms by (auto simp: Solver_init_def Let_def dest!: bindM_Inr)

lemma PosDefSolver_init_inverse:
  assumes "fst (PosDefSolver_init be A True) = Inr P"
  shows "PD_inverse P \<noteq> None"
  using assms by (auto simp: PosDefSolver_init_def Let_def dest!: bindM_Inr)

lemma Solver_solve_inverse_no_backend:
  assumes "fst (Solver_init be A True) = Inr S"
  shows "snd (Solver_solve be S b) = []"
  using Solver_init_inverse [OF assms] by (auto simp: Solver_solve_def)

lemma PosDefSolver_solve_inverse_no_backend:
  assumes "fst (PosDefSolver_init be A True) = Inr P"
  shows "snd (PosDefSolver_solve be P b) = []"
  using PosDefSolver_init_inverse [OF assms] by (auto simp: PosDefSolver_solve_def)

lemma np_dot_zero_columns:
  assumes "shape iv = [r, m]" and "shape b = [m, 0]"
  shows "np_dot iv b = (Inr (np_zeros [r, 0]), [])"
  using assms by (simp add: np_dot_def Let_def retM_def np_zeros_def dot_data_def)

lemma np_dot_empty_system:
  assumes "shape b = 0 # ts" and "length ts \<le> 1"
  shows "np_dot (np_zeros [0, 0]) b = (Inr (np_zeros (shape b)), [])"
proof (cases ts)
  case Nil
  with assms show ?thesis
    by (simp add: np_dot_def Let_def retM_def np_zeros_def dot_data_def)
next
  case (Cons t ts')
  with assms have "ts = [t]" by simp
  with assms show ?thesis
    by (simp add: np_dot_def Let_def retM_def np_zeros_def dot_data_def)
qed

lemma Solver_empty_system:
  assumes "shape A = [0, 0]" and "shape (as_array b) = 0 # ts" and "length ts \<le> 1"
  shows "bindM (Solver_init be (Dense A) bi) (\<lambda>S. Solver_solve be S b)
         = (Inr (np_zeros (shape (as_array b))), [])"
proof -
  have e: "np_eye 0 = np_zeros [0, 0]"
    by (simp add: np_eye_def np_zeros_def tabulate2_def)
  show ?thesis
    using assms np_dot_empty_system [OF assms(2,3)]
    by (cases bi)
       (simp_all add: Solver_init_def DenseSolver_init_def lu_def shape0_def lu_solver_solve_def
          solve_lu_def Solver_solve_def e, simp_all add: retM_def)
qed

lemma PosDefSolver_empty_system:
  assumes "shape A = [0, 0]" and "shape (as_array b) = 0 # ts" and "length ts \<le> 1"
  shows "bindM (PosDefSolver_init be (Dense A) bi) (\<lambda>P. PosDefSolver_solve be P b)
         = (Inr (np_zeros (shape (as_array b))), [])"
proof -
  have e: "np_eye 0 = np_zeros [0, 0]"
    by (simp add: np_eye_def np_zeros_def tabulate2_def)
  show ?thesis
    using assms np_dot_empty_system [OF assms(2,3)]
    by (cases bi)
       (simp_all add: PosDefSolver_init_def DensePosDefSolver_init_def cholesky_def shape0_def
          pd_solver_solve_def solve_cholesky_def PosDefSolver_solve_def e, simp_all add: retM_def)
qed

text \<open>
  Claim C8 as amended, for \<^verbatim>\<open>Solver\<close> and \<^verbatim>\<open>PosDefSolver\<close> built from a dense matrix.
  Without a cached inverse, \<^verbatim>\<open>solve\<close> of a right-hand side whose shape contains a zero
  returns zeros of that shape and performs no effect.  With a cached inverse \<^verbatim>\<open>solve\<close> is a
  product with the inverse and never calls the backend; for a right-hand side without columns
  the product is the empty array.  For a 0 by 0 system, construction followed by \<^verbatim>\<open>solve\<close> of
  an empty vector or matrix returns the empty array without any effect, with or without
  \<^verbatim>\<open>build_inverse\<close>.
\<close>

theorem dense_empty_solve_short_circuits:
  assumes "list_ex (\<lambda>i. i = 0) (shape (as_array b))"
  shows "(fst (Solver_init be (Dense A) False) = Inr S \<longrightarrow>
            Solver_solve be S b = (Inr (np_zeros (shape (as_array b))), []))
       \<and> (fst (PosDefSolver_init be (Dense A) False) = Inr P \<longrightarrow>
            PosDefSolver_solve be P b = (Inr (np_zeros (shape (as_array b))), []))
       \<and> (fst (Solver_init be A1 True) = Inr S1 \<longrightarrow> snd (Solver_solve be S1 b) = [])
       \<and> (fst (PosDefSolver_init be A1 True) = Inr P1 \<longrightarrow> snd (PosDefSolver_solve be P1 b) = [])
       \<and> (shape iv = [r, m] \<and> shape (as_array b) = [m, 0] \<longrightarrow>
            Solver_solve be \<lparr>S_solver = s, S_inverse = Some iv, S_n = k\<rparr> b
              = (Inr (np_zeros [r, 0]), [])
            \<and> PosDefSolver_solve be \<lparr>PD_solver = ps, PD_inverse = Some iv, PD_n = k\<rparr> b
              = (Inr (np_zeros [r, 0]), []))
       \<and> (shape A0 = [0, 0] \<and> shape (as_array b) = 0 # ts \<and> length ts \<le> 1 \<longrightarrow>
            bindM (Solver_init be (Dense A0) bi) (\<lambda>S. Solver_solve be S b)
              = (Inr (np_zeros (shape (as_array b))), [])
            \<and> bindM (PosDefSolver_init be (Dense A0) bi) (\<lambda>P. PosDefSolver_solve be P b)
              = (Inr (np_zeros (shape (as_array b))), []))"
proof (intro conjI impI)
  show "Solver_solve be S b = (Inr (np_zeros (shape (as_array b))), [])"
    if "fst (Solver_init be (Dense A) False) = Inr S"
    using Solver_solve_dense_empty [OF assms that] .
  show "PosDefSolver_solve be P b = (Inr (np_zeros (shape (as_array b))), [])"
    if "fst (PosDefSolver_init be (Dense A) False) = Inr P"
    using PosDefSolver_solve_dense_empty [OF assms that] .
  show "snd (Solver_solve be S1 b) = []" if "fst (Solver_init be A1 True) = Inr S1"
    using Solver_solve_inverse_no_backend [OF that] .
  show "snd (PosDefSolver_solve be P1 b) = []" if "fst (PosDefSolver_init be A1 True) = Inr P1"
    using PosDefSolver_solve_inverse_no_backend [OF that] .
  show "Solver_solve be \<lparr>S_solver = s, S_inverse = Some iv, S_n = k\<rparr> b = (Inr (np_zeros [r, 0]), [])"
    if "shape iv = [r, m] \<and> shape (as_array b) = [m, 0]"
    using that np_dot_zero_columns [of iv r m "as_array b"] by (simp add: Solver_solve_def)
  show "PosDefSolver_solve be \<lparr>PD_solver = ps, PD_inverse = Some iv, PD_n = k\<rparr> b
          = (Inr (np_zeros [r, 0]), [])"
    if "shape iv = [r, m] \<and> shape (as_array b) = [m, 0]"
    using that np_dot_zero_columns [of iv r m "as_array b"] by (simp add: PosDefSolver_solve_def)
  show "bindM (Solver_init be (Dense A0) bi) (\<lambda>S. Solver_solve be S b)
          = (Inr (np_zeros (shape (as_array b))), [])"
    if "shape A0 = [0, 0] \<and> shape (as_array b) = 0 # ts \<and> length ts \<le> 1"
    using that Solver_empty_system [of A0 b ts be bi] by simp
  show "bindM (PosDefSolver_init be (Dense A0) bi) (\<lambda>P. PosDefSolver_solve be P b)
          = (Inr (np_zeros (shape (as_array b))), [])"
    if "shape A0 = [0, 0] \<and> shape (as_array b) = 0 # ts \<and> length ts \<le> 1"
    using that PosDefSolver_empty_system [of A0 b ts be bi] by simp
qed

theorem dense_empty_solve_short_circuits_witness:
  "list_ex (\<lambda>i. i = 0) (shape (as_array (Dense (np_zeros [2, 0]))))
   \<and> fst (Solver_init (diag_backend True) (Dense (mat 2 2 [2, 0, 0, 4])) False)
       = Inr \<lparr>S_solver = DenseSolver (mat 2 2 [2, 0, 0, 4]) [0, 1], S_inverse = None, S_n = 2\<rparr>
   \<and> Solver_solve (diag_backend True)
        \<lparr>S_solver = DenseSolver (mat 2 2 [2, 0, 0, 4]) [0, 1], S_inverse = None, S_n = 2\<rparr>
        (Dense (np_zeros [2, 0])) = (Inr (np_zeros [2, 0]), [])
   \<and> fst (PosDefSolver_init (diag_backend True) (Dense (mat 2 2 [4, 0, 0, 4])) False)
       = Inr \<lparr>PD_solver = DensePosDefSolver (mat 2 2 [2, 0, 0, 2]), PD_inverse = None, PD_n = 2\<rparr>
   \<and> PosDefSolver_solve (diag_backend True)
        \<lparr>PD_solver = DensePosDefSolver (mat 2 2 [2, 0, 0, 2]), PD_inverse = None, PD_n = 2\<rparr>
        (Dense (np_zeros [2, 0])) = (Inr (np_zeros [2, 0]), [])"
proof -
  have z: "list_ex (\<lambda>i. i = 0) (shape (as_array (Dense (np_zeros [2, 0]))))"
    by simp
  have s: "fst (Solver_init (diag_backend True) (Dense (mat 2 2 [2, 0, 0, 4])) False)
       = Inr \<lparr>S_solver = DenseSolver (mat 2 2 [2, 0, 0, 4]) [0, 1], S_inverse = None, S_n = 2\<rparr>"
    by (simp add: eval_defs eval_nat_numeral)
  have p: "fst (PosDefSolver_init (diag_backend True) (Dense (mat 2 2 [4, 0, 0, 4])) False)
       = Inr \<lparr>PD_solver = DensePosDefSolver (mat 2 2 [2, 0, 0, 2]), PD_inverse = None, PD_n = 2\<rparr>"
    by (simp add: eval_defs eval_nat_numeral)
  show ?thesis
    using z s p
      dense_empty_solve_short_circuits [OF z, where be = "diag_backend True"
        and A = "mat 2 2 [2, 0, 0, 4]"
        and S = "\<lparr>S_solver = DenseSolver (mat 2 2 [2, 0, 0, 4]) [0, 1], S_inverse = None, S_n = 2\<rparr>",
        THEN conjunct1]
      dense_empty_solve_short_circuits [OF z, where be = "diag_backend True"
        and A = "mat 2 2 [4, 0, 0, 4]"
        and P = "\<lparr>PD_solver = DensePosDefSolver (mat 2 2 [2, 0, 0, 2]), PD_inverse = None, PD_n = 2\<rparr>",
        THEN conjunct2, THEN conjunct1]
    by simp
qed

section \<open>Which arrays of the caller are written\<close>

named_theorems keeps_intros

lemma keeps_retH [keeps_intros]: "keeps k (retH x)"
  by (simp add: keeps_def retH_def)

lemma keeps_liftM [keeps_intros]: "keeps k (liftM m)"
  by (simp add: keeps_def liftM_def)

lemma keeps_readH [keeps_intros]: "keeps k (readH a)"
  by (simp add: keeps_def readH_def)

lemma keeps_value [keeps_intros]: "keeps k (bindH_value r)"
  by (simp add: keeps_def bindH_value_def)

lemma keeps_allocH [keeps_intros]: "keeps k (allocH v)"
  by (simp add: keeps_def allocH_def)

lemma keeps_writeH: "k \<le> a \<Longrightarrow> keeps k (writeH a v)"
  by (simp add: keeps_def writeH_def)

lemma keeps_bindH_fresh:
  assumes "keeps k m"
    and "\<And>h x. k \<le> length h \<Longrightarrow> fst (fst (m h)) = Inr x \<Longrightarrow> P x"
    and "\<And>x. P x \<Longrightarrow> keeps k (f x)"
  shows "keeps k (bindH m f)"
  unfolding keeps_def
proof (intro allI impI)
  fix h :: heap assume h: "k \<le> length h"
  obtain r l h' where m: "m h = ((r, l), h')" by (metis prod.collapse)
  from assms(1) h have "take k (snd (m h)) = take k h \<and> length h \<le> length (snd (m h))"
    unfolding keeps_def by blast
  with m have 1: "take k h' = take k h" "length h \<le> length h'" by simp_all
  show "take k (snd (bindH m f h)) = take k h \<and> length h \<le> length (snd (bindH m f h))"
  proof (cases r)
    case (Inl e)
    with m 1 show ?thesis by (simp add: bindH_def)
  next
    case (Inr x)
    obtain r' l' h'' where f: "f x h' = ((r', l'), h'')" by (metis prod.collapse)
    have "P x" using assms(2) [OF h, of x] m Inr by simp
    then have "keeps k (f x)" by (rule assms(3))
    moreover have "k \<le> length h'" using h 1(2) by simp
    ultimately have "take k (snd (f x h')) = take k h' \<and> length h' \<le> length (snd (f x h'))"
      unfolding keeps_def by blast
    with f have "take k h'' = take k h'" "length h' \<le> length h''" by simp_all
    with m Inr f 1 show ?thesis by (simp add: bindH_def)
  qed
qed

lemma keeps_bindH [keeps_intros]:
  assumes "keeps k m" and "\<And>x. keeps k (f x)"
  shows "keeps k (bindH m f)"
  using keeps_bindH_fresh [of k m "\<lambda>_. True" f] assms by simp

lemma keeps_alloc_bind:
  assumes "\<And>a. k \<le> a \<Longrightarrow> keeps k (f a)"
  shows "keeps k (bindH (allocH v) f)"
proof (rule keeps_bindH_fresh [where P = "\<lambda>a. k \<le> a"])
  show "keeps k (allocH v)" by (simp add: keeps_def allocH_def)
  show "k \<le> x" if "k \<le> length h" "fst (fst (allocH v h)) = Inr x" for h x
    using that by (simp add: allocH_def retM_def)
  show "keeps k (f x)" if "k \<le> x" for x using that by (rule assms)
qed

lemma keeps_copy_bind:
  assumes "\<And>a. k \<le> a \<Longrightarrow> keeps k (f a)"
  shows "keeps k (bindH (bindH (readH c) allocH) f)"
proof (rule keeps_bindH_fresh [where P = "\<lambda>a. k \<le> a"])
  show "keeps k (bindH (readH c) allocH)"
    by (simp add: keeps_def bindH_def readH_def allocH_def retM_def)
  show "k \<le> x" if "k \<le> length h" "fst (fst (bindH (readH c) allocH h)) = Inr x" for h x
    using that by (simp add: bindH_def readH_def allocH_def retM_def)
  show "keeps k (f x)" if "k \<le> x" for x using that by (rule assms)
qed

lemma keeps_if [keeps_intros]:
  "(c \<Longrightarrow> keeps k a) \<Longrightarrow> (\<not> c \<Longrightarrow> keeps k b) \<Longrightarrow> keeps k (if c then a else b)"
  by simp

lemma keeps_case_option [keeps_intros]:
  "keeps k a \<Longrightarrow> (\<And>x. keeps k (f x)) \<Longrightarrow> keeps k (case_option a f v)"
  by (cases v) simp_all

lemma keeps_preserves: "keeps (length h) m \<Longrightarrow> preserves h (snd (m h))"
  by (simp add: keeps_def preserves_def)

lemma keeps_as_sparse_or_array_h [keeps_intros]: "keeps k (as_sparse_or_array_h A)"
  unfolding as_sparse_or_array_h_def by (intro keeps_intros)

lemma keeps_as_array_h [keeps_intros]: "keeps k (as_array_h A)"
  unfolding as_array_h_def by (intro keeps_intros)

lemma keeps_iadd_h: "k \<le> xy \<Longrightarrow> keeps k (iadd_h xy z)"
  unfolding iadd_h_def by (intro keeps_intros keeps_writeH)

lemma keeps_cached_inverse_xy_h [keeps_intros]: "keeps k (cached_inverse_xy_h n iv a b0)"
  unfolding cached_inverse_xy_h_def
  by (intro keeps_intros keeps_alloc_bind keeps_iadd_h)

lemma keeps_Solver_init_h: "keeps k (Solver_init_h be A bi)"
  unfolding Solver_init_h_def by (intro keeps_intros)

lemma keeps_Solver_solve_h: "keeps k (Solver_solve_h be S b)"
  unfolding Solver_solve_h_def by (intro keeps_intros)

lemma keeps_PosDefSolver_init_h: "keeps k (PosDefSolver_init_h be A bi)"
  unfolding PosDefSolver_init_h_def by (intro keeps_intros)

lemma keeps_PosDefSolver_solve_h: "keeps k (PosDefSolver_solve_h be S b)"
  unfolding PosDefSolver_solve_h_def by (intro keeps_intros)

lemma keeps_PosDefSolver_solve_L_h: "keeps k (PosDefSolver_solve_L_h be S b)"
  unfolding PosDefSolver_solve_L_h_def by (intro keeps_intros)

lemma keeps_PartitionedSolver_init_h: "keeps k (PartitionedSolver_init_h be A B bi)"
  unfolding PartitionedSolver_init_h_def by (intro keeps_intros)

lemma keeps_PartitionedPosDefSolver_init_h: "keeps k (PartitionedPosDefSolver_init_h be A B bi)"
  unfolding PartitionedPosDefSolver_init_h_def by (intro keeps_intros)

lemma keeps_PartitionedSolver_solve_h: "keeps k (PartitionedSolver_solve_h be S a b)"
  unfolding PartitionedSolver_solve_h_def by (intro keeps_intros)

lemma keeps_PartitionedPosDefSolver_solve_h: "keeps k (PartitionedPosDefSolver_solve_h be S a b)"
  unfolding PartitionedPosDefSolver_solve_h_def Let_def by (intro keeps_intros)

lemma keeps_csc_matrix_h [keeps_intros]: "keeps k (csc_matrix_h A)"
  unfolding csc_matrix_h_def by (intro keeps_intros)

lemma keeps_GMRESSolver_init_copy: "keeps k (GMRESSolver_init be A dt ff False)"
  unfolding GMRESSolver_init_def divide_rows_def Let_def
  by simp (intro keeps_intros)

lemma keeps_GMRESSolver_init_not_csc:
  assumes "ref_kind A \<noteq> Csc"
  shows "keeps k (GMRESSolver_init be A dt ff True)"
  unfolding GMRESSolver_init_def divide_rows_def csc_matrix_h_def Let_def
  using assms
  by simp (intro keeps_copy_bind keeps_intros keeps_writeH)


lemmas heap_defs = retH_def liftM_def bindH_def allocH_def readH_def writeH_def bindH_value_def
  deref_def is_sparse_kind_def csc_matrix_h_def row_norms_def divided_rows_def divide_rows_def
  GMRESSolver_init_def

lemma GMRESSolver_init_inplace_writes:
  assumes "ref_kind A = Csc"
  shows "snd (GMRESSolver_init be A dt ff True h)
         = h[ref_addr A := divided_rows (h ! ref_addr A) (row_norms (h ! ref_addr A))]"
  using assms
  by (simp add: GMRESSolver_init_def csc_matrix_h_def divide_rows_def retH_def liftM_def bindH_def
        readH_def writeH_def retM_def emit_def extcall_def Let_def split: sum.splits)

lemma GMRESSolver_init_copy_fresh:
  assumes "fst (fst (GMRESSolver_init be A dt ff False h)) = Inr G"
  shows "length h \<le> G_A G"
  using assms
  by (auto simp: GMRESSolver_init_def csc_matrix_h_def divide_rows_def retH_def liftM_def bindH_def
        readH_def allocH_def retM_def emit_def extcall_def Let_def split: sum.splits if_splits)

lemma bindH_retH [simp]: "bindH (retH x) f = f x"
  by (rule ext) (simp add: bindH_def retH_def retM_def split: prod.splits)

lemma bindH_readH [simp]: "bindH (readH a) f h = f (h ! a) h"
  by (simp add: bindH_def readH_def retM_def split: prod.splits)

lemma bindH_allocH [simp]: "bindH (allocH v) f h = f (length h) (h @ [v])"
  by (simp add: bindH_def allocH_def retM_def split: prod.splits)

lemma bindH_writeH [simp]: "bindH (writeH a v) f h = f () (h[a := v])"
  by (simp add: bindH_def writeH_def retM_def split: prod.splits)

lemma bindH_assoc: "bindH (bindH m f) g = bindH m (\<lambda>x. bindH (f x) g)"
  by (rule ext) (auto simp: bindH_def split: prod.splits sum.splits)

lemma fst_bindH_liftM [simp]: "fst (bindH (liftM m) f h) = bindM m (\<lambda>x. fst (f x h))"
  by (cases m; cases "fst m") (auto simp: bindH_def liftM_def bindM_def split: prod.splits)

lemma fst_liftM [simp]: "fst (liftM m h) = m"
  by (simp add: liftM_def)

lemma fst_retH [simp]: "fst (retH x h) = retM x"
  by (simp add: retH_def)

lemma fst_readH [simp]: "fst (readH a h) = retM (h ! a)"
  by (simp add: readH_def)

lemma Solver_solve_h_value:
  assumes "ref_addr b < length h"
  shows "fst (Solver_solve_h be S b h) = Solver_solve be S (Dense (h ! ref_addr b))"
  using assms
  by (simp add: Solver_solve_h_def as_array_h_def bindH_assoc nth_append)

lemma PartitionedSolver_solve_h_value:
  assumes "ref_addr a < length h" and "\<And>r. bo = Some r \<Longrightarrow> ref_addr r < length h"
  shows "fst (PartitionedSolver_solve_h be S a bo h)
       = PartitionedSolver_solve be S (Dense (h ! ref_addr a))
           (map_option (\<lambda>r. Dense (h ! ref_addr r)) bo)"
  using assms
  apply (cases bo; cases "PS_inverse S")
  apply (simp_all add: PartitionedSolver_solve_h_def PartitionedSolver_solve_def PartitionedSolver_xy_def
      cached_inverse_xy_h_def iadd_h_def as_array_h_def bindH_assoc nth_append bindM_assoc Let_def)
  done


lemma PartitionedPosDefSolver_solve_h_value:
  assumes "ref_addr a < length h" and "\<And>r. bo = Some r \<Longrightarrow> ref_addr r < length h"
  shows "fst (PartitionedPosDefSolver_solve_h be S a bo h)
       = PartitionedPosDefSolver_solve be S (Dense (h ! ref_addr a))
           (map_option (\<lambda>r. Dense (h ! ref_addr r)) bo)"
  using assms
  apply (cases bo; cases "PPD_inverse S")
  apply (simp_all add: PartitionedPosDefSolver_solve_h_def PartitionedPosDefSolver_solve_def
      cached_inverse_xy_h_def iadd_h_def as_array_h_def bindH_assoc nth_append bindM_assoc Let_def)
  done

lemma PosDefSolver_solve_h_value:
  assumes "ref_addr b < length h"
  shows "fst (PosDefSolver_solve_h be S b h) = PosDefSolver_solve be S (Dense (h ! ref_addr b))"
  using assms
  by (simp add: PosDefSolver_solve_h_def as_array_h_def bindH_assoc nth_append)

lemma fst_bindH_value [simp]: "bindH (bindH_value r) f h = f (deref h r) h"
  by (simp add: bindH_def bindH_value_def retM_def split: prod.splits)

lemma Solver_init_h_value:
  assumes "ref_addr A < length h"
  shows "fst (Solver_init_h be A bi h) = Solver_init be (deref h A) bi"
  using assms
  by (simp add: Solver_init_h_def as_sparse_or_array_h_def bindH_assoc nth_append deref_def
      is_sparse_kind_def)

lemma PosDefSolver_init_h_value:
  assumes "ref_addr A < length h"
  shows "fst (PosDefSolver_init_h be A bi h) = PosDefSolver_init be (deref h A) bi"
  using assms
  by (simp add: PosDefSolver_init_h_def as_sparse_or_array_h_def bindH_assoc nth_append deref_def
      is_sparse_kind_def)

lemma PartitionedSolver_init_h_value:
  assumes "ref_addr A < length h" and "ref_addr B < length h"
  shows "fst (PartitionedSolver_init_h be A B bi h)
         = PartitionedSolver_init be (deref h A) (Dense (h ! ref_addr B)) bi"
  using assms
  by (simp add: PartitionedSolver_init_h_def as_sparse_or_array_h_def as_array_h_def bindH_assoc
      nth_append deref_def is_sparse_kind_def)

lemma PartitionedPosDefSolver_init_h_value:
  assumes "ref_addr A < length h" and "ref_addr B < length h"
  shows "fst (PartitionedPosDefSolver_init_h be A B bi h)
         = PartitionedPosDefSolver_init be (deref h A) (Dense (h ! ref_addr B)) bi"
  using assms
  by (simp add: PartitionedPosDefSolver_init_h_def as_sparse_or_array_h_def as_array_h_def
      bindH_assoc nth_append deref_def is_sparse_kind_def)

text \<open>
  Claim C9.  On every store, constructing \<^verbatim>\<open>Solver\<close>, \<^verbatim>\<open>PosDefSolver\<close>,
  \<^verbatim>\<open>PartitionedSolver\<close> or \<^verbatim>\<open>PartitionedPosDefSolver\<close> and calling their \<^verbatim>\<open>solve\<close>
  methods leaves every array that existed before the call as it was: the calls only
  allocate, and \<^verbatim>\<open>xy += ...\<close> writes into an array allocated by the same call.
  \<^verbatim>\<open>GMRESSolver\<close> constructed with \<^verbatim>\<open>normalize_inplace=False\<close> leaves every existing array
  as it was and keeps its normalized matrix in a new array.  An existing array is changed
  only if \<^verbatim>\<open>normalize_inplace=True\<close> and the caller's matrix is a csc matrix, and then the
  matrix of the caller is replaced by its rows divided by their norms.
\<close>

theorem caller_arrays_written_only_by_gmres_inplace:
  "preserves h (snd (Solver_init_h be A bi h))
   \<and> preserves h (snd (Solver_solve_h be S b h))
   \<and> preserves h (snd (PosDefSolver_init_h be A bi h))
   \<and> preserves h (snd (PosDefSolver_solve_h be P b h))
   \<and> preserves h (snd (PartitionedSolver_init_h be A B bi h))
   \<and> preserves h (snd (PartitionedSolver_solve_h be PS b bo h))
   \<and> preserves h (snd (PartitionedPosDefSolver_init_h be A B bi h))
   \<and> preserves h (snd (PartitionedPosDefSolver_solve_h be PP b bo h))
   \<and> preserves h (snd (GMRESSolver_init be A drop_tol fill_factor False h))
   \<and> (\<forall>G. fst (fst (GMRESSolver_init be A drop_tol fill_factor False h)) = Inr G
          \<longrightarrow> length h \<le> G_A G)
   \<and> (\<not> preserves h (snd (GMRESSolver_init be A drop_tol fill_factor normalize_inplace h))
        \<longrightarrow> normalize_inplace \<and> ref_kind A = Csc)
   \<and> (ref_kind A = Csc \<longrightarrow>
        snd (GMRESSolver_init be A drop_tol fill_factor True h)
          = h[ref_addr A := divided_rows (h ! ref_addr A) (row_norms (h ! ref_addr A))])"
proof (intro conjI allI impI)
  show "normalize_inplace"
    if "\<not> preserves h (snd (GMRESSolver_init be A drop_tol fill_factor normalize_inplace h))"
    using that keeps_preserves [OF keeps_GMRESSolver_init_copy, of h be A drop_tol fill_factor]
    by (cases normalize_inplace) simp_all
  show "ref_kind A = Csc"
    if "\<not> preserves h (snd (GMRESSolver_init be A drop_tol fill_factor normalize_inplace h))"
    using that keeps_preserves [OF keeps_GMRESSolver_init_copy, of h be A drop_tol fill_factor]
      keeps_preserves [OF keeps_GMRESSolver_init_not_csc, of A h be drop_tol fill_factor]
    by (cases normalize_inplace) auto
  show "length h \<le> G_A G"
    if "fst (fst (GMRESSolver_init be A drop_tol fill_factor False h)) = Inr G" for G
    using that by (rule GMRESSolver_init_copy_fresh)
  show "snd (GMRESSolver_init be A drop_tol fill_factor True h)
          = h[ref_addr A := divided_rows (h ! ref_addr A) (row_norms (h ! ref_addr A))]"
    if "ref_kind A = Csc"
    using that by (rule GMRESSolver_init_inplace_writes)
qed (rule keeps_preserves, rule keeps_Solver_init_h keeps_Solver_solve_h keeps_PosDefSolver_init_h
      keeps_PosDefSolver_solve_h keeps_PartitionedSolver_init_h keeps_PartitionedSolver_solve_h
      keeps_PartitionedPosDefSolver_init_h keeps_PartitionedPosDefSolver_solve_h
      keeps_GMRESSolver_init_copy)+

theorem caller_arrays_written_only_by_gmres_inplace_witness:
  "snd (GMRESSolver_init (diag_backend True) \<lparr>ref_addr = 0, ref_kind = Csc, ref_float = True\<rparr>
          (1 / 200) 2 True [mat 2 2 [2, 0, 0, 2]])
     = [mat 2 2 [1, 0, 0, 1]]
   \<and> snd (GMRESSolver_init (diag_backend True) \<lparr>ref_addr = 0, ref_kind = Csc, ref_float = True\<rparr>
          (1 / 200) 2 False [mat 2 2 [2, 0, 0, 2]])
     = [mat 2 2 [2, 0, 0, 2], mat 2 2 [1, 0, 0, 1]]
   \<and> snd (GMRESSolver_init (diag_backend True) \<lparr>ref_addr = 0, ref_kind = SparseOther, ref_float = True\<rparr>
          (1 / 200) 2 True [mat 2 2 [2, 0, 0, 2]])
     = [mat 2 2 [2, 0, 0, 2], mat 2 2 [1, 0, 0, 1]]
   \<and> PartitionedSolver_solve_h (diag_backend True)
        \<lparr>PS_solver = DenseSolver (mat 2 2 [2, 1, 1, 0]) [0, 1],
         PS_inverse = Some (mat 2 2 [0, 1, 1, - 2]), PS_n = 1, PS_p = 1\<rparr>
        \<lparr>ref_addr = 0, ref_kind = NdArray, ref_float = True\<rparr>
        (Some \<lparr>ref_addr = 1, ref_kind = NdArray, ref_float = True\<rparr>) [vec [3], vec [1]]
     = ((Inr (vec [1], vec [1]), []), [vec [3], vec [1], vec [1, 1]])"
proof -
  let ?A = "\<lparr>ref_addr = 0, ref_kind = Csc, ref_float = True\<rparr>"
  have c: "ref_kind ?A = Csc" by simp
  have d: "divided_rows (mat 2 2 [2, 0, 0, 2]) (row_norms (mat 2 2 [2, 0, 0, 2])) = mat 2 2 [1, 0, 0, 1]"
    by (simp add: heap_defs eval_defs eval_nat_numeral)
  have 1: "snd (GMRESSolver_init (diag_backend True) ?A (1 / 200) 2 True [mat 2 2 [2, 0, 0, 2]])
           = [mat 2 2 [1, 0, 0, 1]]"
    using caller_arrays_written_only_by_gmres_inplace
      [where h = "[mat 2 2 [2, 0, 0, 2]]" and A = ?A and be = "diag_backend True"
         and drop_tol = "1 / 200" and fill_factor = 2,
       THEN conjunct2, THEN conjunct2, THEN conjunct2, THEN conjunct2, THEN conjunct2,
       THEN conjunct2, THEN conjunct2, THEN conjunct2, THEN conjunct2, THEN conjunct2,
       THEN conjunct2] c d
    by simp
  have 2: "snd (GMRESSolver_init (diag_backend True) ?A (1 / 200) 2 False [mat 2 2 [2, 0, 0, 2]])
           = [mat 2 2 [2, 0, 0, 2], mat 2 2 [1, 0, 0, 1]]"
    by (simp add: heap_defs eval_defs eval_nat_numeral)
  have 3: "snd (GMRESSolver_init (diag_backend True)
              \<lparr>ref_addr = 0, ref_kind = SparseOther, ref_float = True\<rparr>
              (1 / 200) 2 True [mat 2 2 [2, 0, 0, 2]])
           = [mat 2 2 [2, 0, 0, 2], mat 2 2 [1, 0, 0, 1]]"
    by (simp add: heap_defs eval_defs eval_nat_numeral)
  have 4: "PartitionedSolver_solve_h (diag_backend True)
        \<lparr>PS_solver = DenseSolver (mat 2 2 [2, 1, 1, 0]) [0, 1],
         PS_inverse = Some (mat 2 2 [0, 1, 1, - 2]), PS_n = 1, PS_p = 1\<rparr>
        \<lparr>ref_addr = 0, ref_kind = NdArray, ref_float = True\<rparr>
        (Some \<lparr>ref_addr = 1, ref_kind = NdArray, ref_float = True\<rparr>) [vec [3], vec [1]]
     = ((Inr (vec [1], vec [1]), []), [vec [3], vec [1], vec [1, 1]])"
    by (simp add: PartitionedSolver_solve_h_def cached_inverse_xy_h_def iadd_h_def as_array_h_def
          heap_defs eval_defs eval_nat_numeral)
  show ?thesis using 1 2 3 4 by simp
qed

section \<open>The dimension check of the sparse triangular solve\<close>

lemma SparsePosDefSolver_solve_L_bad_ndim:
  assumes "ndim b \<noteq> 1" and "ndim b \<noteq> 2"
  shows "SparsePosDefSolver_solve_L factor d p b = (Inl (ValueError msg_b_ndim), [])"
  using assms by (simp add: SparsePosDefSolver_solve_L_def Let_def) (simp add: raiseM_def)

lemma SparsePosDefSolver_solve_L_good_ndim:
  assumes "ndim b = 1 \<or> ndim b = 2"
  shows "SparsePosDefSolver_solve_L factor d p b = scaled_permuted_solve_L factor d p b"
  using assms
  by (auto simp: SparsePosDefSolver_solve_L_def scaled_permuted_solve_L_def inv_sqrt_def Let_def)

lemma avoids_extcall_ValueError: "avoids (extcall r res) (ValueError m)"
  by (simp add: avoids_def extcall_def split: sum.splits)

lemma solve_triangular_no_ndim_check:
  "avoids (solve_triangular be L b lower) (ValueError msg_b_ndim)"
  unfolding solve_triangular_def
  by (intro avoids_intros avoids_raiseM avoids_extcall_ValueError) (simp_all add: msg_b_ndim_def)

text \<open>
  Claim C10.  When \<^verbatim>\<open>PosDefSolver\<close> holds the sparse (CHOLMOD) solver, \<^verbatim>\<open>solve_L(b)\<close>
  raises the \<^verbatim>\<open>ValueError\<close> about 1 or 2 dimensional arrays, without any effect, for every
  \<open>b\<close> whose number of dimensions is neither 1 nor 2; for a 1- or 2-dimensional \<open>b\<close> it is
  \<open>1 / sqrt D\<close> times CHOLMOD's \<^verbatim>\<open>solve_L\<close> of the rows of \<open>b\<close> permuted by the
  fill-reducing permutation.  With the dense solver \<^verbatim>\<open>solve_L\<close> is the triangular solve
  of LAPACK, whatever the dimension of \<open>b\<close>, and never raises that \<^verbatim>\<open>ValueError\<close>.
\<close>

theorem sparse_solve_L_checks_ndim:
  assumes "PD_solver self = SparsePosDefSolver factor d p"
  shows "(ndim (as_array b) \<noteq> 1 \<and> ndim (as_array b) \<noteq> 2 \<longrightarrow>
            PosDefSolver_solve_L be self b = (Inl (ValueError msg_b_ndim), []))
       \<and> (ndim (as_array b) = 1 \<or> ndim (as_array b) = 2 \<longrightarrow>
            PosDefSolver_solve_L be self b = scaled_permuted_solve_L factor d p (as_array b))
       \<and> PosDefSolver_solve_L be \<lparr>PD_solver = DensePosDefSolver chol, PD_inverse = iv, PD_n = k\<rparr> b
            = solve_triangular be chol (as_array b) True
       \<and> fst (solve_triangular be chol (as_array b) True) \<noteq> Inl (ValueError msg_b_ndim)"
  using assms SparsePosDefSolver_solve_L_bad_ndim [of "as_array b" factor d p]
    SparsePosDefSolver_solve_L_good_ndim [of "as_array b" factor d p]
    solve_triangular_no_ndim_check [of be chol "as_array b" True]
  by (auto simp: PosDefSolver_solve_L_def pd_solver_solve_L_def avoids_def)

theorem sparse_solve_L_checks_ndim_witness:
  "PosDefSolver_solve_L (diag_backend True)
      \<lparr>PD_solver = SparsePosDefSolver (diag_cholfactor (mat 2 2 [4, 0, 0, 1])) (vec [4, 1]) [1, 0],
       PD_inverse = None, PD_n = 2\<rparr> (Dense (vec [2, 3]))
     = (Inr (vec [3 / 2, 2]), [Backend Cholmod_solve_L])
   \<and> PosDefSolver_solve_L (diag_backend True)
      \<lparr>PD_solver = SparsePosDefSolver (diag_cholfactor (mat 2 2 [4, 0, 0, 1])) (vec [4, 1]) [1, 0],
       PD_inverse = None, PD_n = 2\<rparr> (Dense (mat 2 2 [2, 4, 3, 5]))
     = (Inr (mat 2 2 [3 / 2, 5 / 2, 2, 4]), [Backend Cholmod_solve_L])
   \<and> PosDefSolver_solve_L (diag_backend True)
      \<lparr>PD_solver = SparsePosDefSolver (diag_cholfactor (mat 2 2 [4, 0, 0, 1])) (vec [4, 1]) [1, 0],
       PD_inverse = None, PD_n = 2\<rparr> (Dense \<lparr>shape = [2, 1, 1], data = [2, 3]\<rparr>)
     = (Inl (ValueError msg_b_ndim), [])
   \<and> PosDefSolver_solve_L (diag_backend True)
      \<lparr>PD_solver = DensePosDefSolver (mat 2 2 [2, 0, 0, 1]), PD_inverse = None, PD_n = 2\<rparr>
      (Dense \<lparr>shape = [2, 1, 1], data = [2, 3]\<rparr>)
     = (Inr \<lparr>shape = [2, 1, 1], data = [1, 3]\<rparr>, [Backend Dtrtrs])"
proof -
  let ?S = "\<lparr>PD_solver = SparsePosDefSolver (diag_cholfactor (mat 2 2 [4, 0, 0, 1])) (vec [4, 1]) [1, 0],
             PD_inverse = None, PD_n = 2\<rparr>"
  have t: "PD_solver ?S = SparsePosDefSolver (diag_cholfactor (mat 2 2 [4, 0, 0, 1])) (vec [4, 1]) [1, 0]"
    by simp
  have a: "PosDefSolver_solve_L (diag_backend True) ?S (Dense (vec [2, 3]))
           = scaled_permuted_solve_L (diag_cholfactor (mat 2 2 [4, 0, 0, 1])) (vec [4, 1]) [1, 0] (vec [2, 3])"
    using sparse_solve_L_checks_ndim [OF t, where b = "Dense (vec [2, 3])" and be = "diag_backend True",
        THEN conjunct2, THEN conjunct1]
    by (simp add: array_defs)
  have b: "PosDefSolver_solve_L (diag_backend True) ?S (Dense (mat 2 2 [2, 4, 3, 5]))
           = scaled_permuted_solve_L (diag_cholfactor (mat 2 2 [4, 0, 0, 1])) (vec [4, 1]) [1, 0]
               (mat 2 2 [2, 4, 3, 5])"
    using sparse_solve_L_checks_ndim [OF t, where b = "Dense (mat 2 2 [2, 4, 3, 5])"
        and be = "diag_backend True", THEN conjunct2, THEN conjunct1]
    by (simp add: array_defs)
  have c: "PosDefSolver_solve_L (diag_backend True) ?S (Dense \<lparr>shape = [2, 1, 1], data = [2, 3]\<rparr>)
           = (Inl (ValueError msg_b_ndim), [])"
    using sparse_solve_L_checks_ndim [OF t, where b = "Dense \<lparr>shape = [2, 1, 1], data = [2, 3]\<rparr>"
        and be = "diag_backend True", THEN conjunct1]
    by (simp add: array_defs)
  have d: "PosDefSolver_solve_L (diag_backend True)
             \<lparr>PD_solver = DensePosDefSolver (mat 2 2 [2, 0, 0, 1]), PD_inverse = None, PD_n = 2\<rparr>
             (Dense \<lparr>shape = [2, 1, 1], data = [2, 3]\<rparr>)
           = solve_triangular (diag_backend True) (mat 2 2 [2, 0, 0, 1])
               \<lparr>shape = [2, 1, 1], data = [2, 3]\<rparr> True"
    using sparse_solve_L_checks_ndim [OF t, where b = "Dense \<lparr>shape = [2, 1, 1], data = [2, 3]\<rparr>"
        and be = "diag_backend True" and chol = "mat 2 2 [2, 0, 0, 1]" and iv = None and k = 2,
        THEN conjunct2, THEN conjunct2, THEN conjunct1]
    by (simp add: array_defs)
  have a': "scaled_permuted_solve_L (diag_cholfactor (mat 2 2 [4, 0, 0, 1])) (vec [4, 1]) [1, 0] (vec [2, 3])
            = (Inr (vec [3 / 2, 2]), [Backend Cholmod_solve_L])"
    by (simp add: eval_defs scaled_permuted_solve_L_def inv_sqrt_def eval_nat_numeral)
  have b': "scaled_permuted_solve_L (diag_cholfactor (mat 2 2 [4, 0, 0, 1])) (vec [4, 1]) [1, 0]
               (mat 2 2 [2, 4, 3, 5])
            = (Inr (mat 2 2 [3 / 2, 5 / 2, 2, 4]), [Backend Cholmod_solve_L])"
    by (simp add: eval_defs scaled_permuted_solve_L_def inv_sqrt_def eval_nat_numeral)
       (simp add: numeral_2_eq_2 [symmetric] numeral_3_eq_3 [symmetric])
  have d': "solve_triangular (diag_backend True) (mat 2 2 [2, 0, 0, 1])
               \<lparr>shape = [2, 1, 1], data = [2, 3]\<rparr> True
            = (Inr \<lparr>shape = [2, 1, 1], data = [1, 3]\<rparr>, [Backend Dtrtrs])"
    by (simp add: eval_defs eval_nat_numeral)
  show ?thesis
    using a b c d a' b' d' by simp
qed

end
